theory Spec2Isabelle
  imports Complex_Main "HOL-Library.AList" "HOL-Library.Sublist"
begin

section \<open>JavaScript values\<close>

text \<open>
  The values a configuration is made of.  A number is a finite real, one of the two
  infinities or NaN.  An object is the list of its own enumerable properties in the order
  in which \<open>for ... in\<close> visits them (keys are distinct in a well-formed object, see
  \<open>wellFormed\<close>): \<open>JObj\<close> is an object written as a literal, \<open>JOther\<close> any other
  object that is not an array (a class instance, a \<open>Date\<close>, a DOM node, an object
  without prototype), with a flag that tells whether it inherits \<open>hasOwnProperty\<close> from
  \<open>Object.prototype\<close>.  The enumerable properties that an object inherits are not
  listed: the \<open>hasOwnProperty\<close> test of \<open>deepMerge\<close> skips them, and an object that
  does not inherit \<open>hasOwnProperty\<close> is taken to inherit nothing that is enumerable.
  Functions are not among the values.
\<close>

datatype jsnum = Fin real | PosInf | NegInf | NaN

datatype jv = JUndef | JNull | JBool bool | JNum jsnum | JStr string
  | JArr "jv list" | JObj "(string \<times> jv) list" | JOther bool "(string \<times> jv) list"

type_synonym obj = "(string \<times> jv) list"

text \<open>
  Exceptions are values.  \<open>Error msg\<close> is \<open>new Error(msg)\<close>; the errors whose
  message embeds a value carry the value instead.  A method that can throw after it has
  written to its object returns an \<open>outcome\<close>, which keeps the object as the throw
  left it.
\<close>

datatype error = TypeError | SyntaxError | Error string | UnsupportedMediaType jv
  | ContainerNotFound | IndexSizeError | NotAllowedError

datatype 'a outcome = Returns (final: 'a) | Throws error (final: 'a)

text \<open>Truthiness of a value (\<open>!!v\<close>).\<close>

fun truthy :: "jv \<Rightarrow> bool" where
  "truthy JUndef = False"
| "truthy JNull = False"
| "truthy (JBool b) = b"
| "truthy (JNum (Fin r)) = (r \<noteq> 0)"
| "truthy (JNum NaN) = False"
| "truthy (JNum _) = True"
| "truthy (JStr s) = (s \<noteq> [])"
| "truthy (JArr _) = True"
| "truthy (JObj _) = True"
| "truthy (JOther _ _) = True"

text \<open>Property read \<open>ob[key]\<close>: a missing property reads as \<open>undefined\<close>.\<close>

definition get :: "obj \<Rightarrow> string \<Rightarrow> jv" where
  "get ob key = (case map_of ob key of None \<Rightarrow> JUndef | Some v \<Rightarrow> v)"

text \<open>The decimal numeral of an array index.\<close>

function showNat :: "nat \<Rightarrow> string" where
  "showNat n =
     (if n < 10 then [''0123456789'' ! n]
      else showNat (n div 10) @ [''0123456789'' ! (n mod 10)])"
  by pat_completeness auto
termination
  by (relation "measure (\<lambda>n. n)") auto

text \<open>The elements of an array or the characters of a string under their indices.\<close>

definition indexed :: "jv list \<Rightarrow> obj" where
  "indexed vs = zip (map showNat [0 ..< length vs]) vs"

text \<open>
  The own enumerable properties of a value, which \<open>for ... in\<close> with the
  \<open>hasOwnProperty\<close> test visits and a property read looks at: those of an object, the
  elements of an array, the characters of a string, none for another primitive.
\<close>

fun props :: "jv \<Rightarrow> obj" where
  "props (JObj xs) = xs"
| "props (JOther inherits xs) = xs"
| "props (JArr vs) = indexed vs"
| "props (JStr s) = indexed (map (\<lambda>c. JStr [c]) s)"
| "props _ = []"

text \<open>
  \<open>isObject(item)\<close> of the configuration manager:
  \<open>item && typeof item === 'object' && !Array.isArray(item)\<close>.
\<close>

fun isObject :: "jv \<Rightarrow> bool" where
  "isObject (JObj _) = True"
| "isObject (JOther _ _) = True"
| "isObject _ = False"

text \<open>
  Reading a key path \<open>v.k1.k2...\<close> through objects; \<open>None\<close> when the path does not
  exist in \<open>v\<close>.
\<close>

fun lookup :: "jv \<Rightarrow> string list \<Rightarrow> jv option" where
  "lookup v [] = Some v"
| "lookup v (k # ks) =
     (if isObject v
      then (case map_of (props v) k of None \<Rightarrow> None | Some w \<Rightarrow> lookup w ks)
      else None)"

text \<open>
  \<open>absentFrom v p\<close>: walking the path \<open>p\<close> through \<open>v\<close> meets objects only (values
  that pass \<open>isObject\<close>) and ends at a key that the object reached does not have.
\<close>

fun absentFrom :: "jv \<Rightarrow> string list \<Rightarrow> bool" where
  "absentFrom v [] = False"
| "absentFrom v (k # ks) =
     (isObject v \<and> (case map_of (props v) k of None \<Rightarrow> True | Some w \<Rightarrow> absentFrom w ks))"

text \<open>
  Well-formed values: no object has two properties of the same name, and none has an
  own property named \<open>__proto__\<close>, which an object literal cannot give it.
\<close>

fun wellFormed :: "jv \<Rightarrow> bool" where
  "wellFormed (JObj xs) =
     (distinct (map fst xs) \<and> ''__proto__'' \<notin> set (map fst xs)
      \<and> list_all (\<lambda>p. wellFormed (snd p)) xs)"
| "wellFormed (JOther inherits xs) =
     (distinct (map fst xs) \<and> ''__proto__'' \<notin> set (map fst xs)
      \<and> list_all (\<lambda>p. wellFormed (snd p)) xs)"
| "wellFormed (JArr vs) = list_all wellFormed vs"
| "wellFormed _ = True"

section \<open>ConfigManager\<close>

abbreviation jnum :: "real \<Rightarrow> jv" where
  "jnum r \<equiv> JNum (Fin r)"

text \<open>\<open>this.defaultConfig\<close> of the constructor, key by key.\<close>

definition defaultConfig :: obj where
  "defaultConfig =
    [(''videoUrl'', JStr ''''),
     (''poster'', JStr ''''),
     (''autoplay'', JBool False),
     (''startOffset'', jnum 0),
     (''vertical'', JBool False),
     (''locale'', JStr ''en''),
     (''priority'', JStr ''hls''),
     (''container'', JNull),
     (''features'', JObj
        [(''speed'', JBool True),
         (''nextVideo'', JBool True),
         (''volume'', JBool True),
         (''pip'', JBool True),
         (''chromecast'', JBool False),
         (''qualityInControlBar'', JBool True),
         (''topBar'', JBool True),
         (''share'', JBool False),
         (''oneHand'', JBool False),
         (''cinema'', JBool True),
         (''ccVisible'', JBool True)]),
     (''hlsConfig'', JObj
        [(''maxBufferLength'', jnum 30),
         (''maxInitialBufferLength'', jnum 6),
         (''prebufferGoal'', jnum 3),
         (''enableWorker'', JBool True),
         (''lowLatencyMode'', JBool False)]),
     (''hotspots'', JArr []),
     (''menu'', JObj
        [(''related'', JArr []),
         (''showOnPause'', JBool True),
         (''slideout'', JBool False)]),
     (''theme'', JObj
        [(''customColor'', JStr ''#FF6B00''),
         (''customLogo'', JStr ''''),
         (''themeCode'', JStr ''default'')]),
     (''pip'', JObj
        [(''enabled'', JBool True),
         (''position'', JStr ''bottom-right''),
         (''size'', JObj [(''width'', jnum 320), (''height'', jnum 180)])]),
     (''eventTracking'', JObj
        [(''enabled'', JBool False),
         (''cdn'', JStr ''unknown''),
         (''isp'', JStr ''unknown''),
         (''geo'', JStr ''unknown''),
         (''videoId'', JStr ''''),
         (''playerSource'', JStr ''universal-player''),
         (''viewedThreshold'', jnum 0.8),
         (''trackingUrl'', JStr '''')]),
     (''nextVideo'', JObj
        [(''enabled'', JBool True),
         (''url'', JStr ''''),
         (''title'', JStr ''''),
         (''poster'', JStr ''''),
         (''countdown'', jnum 10)]),
     (''adRolls'', JObj
        [(''preRoll'', JNull),
         (''postRoll'', JNull),
         (''pauseRoll'', JNull)]),
     (''isVr'', JBool False),
     (''vrProps'', JObj []),
     (''ui'', JObj
        [(''hideControlsTimeout'', jnum 3000),
         (''showThumbnails'', JBool True),
         (''showDuration'', JBool True),
         (''showCurrentTime'', JBool True),
         (''controlsAlwaysVisible'', JBool False)]),
     (''quality'', JObj
        [(''default'', JStr ''auto''),
         (''levels'', JArr [JStr ''auto'', JStr ''1080p'', JStr ''720p'', JStr ''480p'',
                           JStr ''360p'', JStr ''240p''])]),
     (''speed'', JObj
        [(''default'', jnum 1),
         (''options'', JArr [jnum 0.25, jnum 0.5, jnum 0.75, jnum 1, jnum 1.25, jnum 1.5,
                            jnum 1.75, jnum 2])]),
     (''volume'', jnum 1),
     (''muted'', JBool False),
     (''subtitles'', JObj
        [(''enabled'', JBool False),
         (''tracks'', JArr []),
         (''defaultLanguage'', JStr ''en'')])]"

text \<open>
  \<open>source.hasOwnProperty(key)\<close> calls whatever the object has under that name.  It is
  \<open>Object.prototype\<close>'s function unless the object has an own property of the name,
  which (no value being a function) cannot be called, or does not inherit it; then the
  call is a \<open>TypeError\<close>.
\<close>

fun hasOwnPropertyThrows :: "jv \<Rightarrow> bool" where
  "hasOwnPropertyThrows (JObj xs) = (''hasOwnProperty'' \<in> set (map fst xs))"
| "hasOwnPropertyThrows (JOther inherits xs) =
     (\<not> inherits \<or> ''hasOwnProperty'' \<in> set (map fst xs))"
| "hasOwnPropertyThrows _ = False"

text \<open>
  The loop of \<open>deepMerge(target, source)\<close>.  \<open>throws\<close> tells whether the call
  \<open>source.hasOwnProperty(key)\<close> fails; the second argument is \<open>result\<close>, which
  starts as the copy \<open>{ ...target }\<close>; the third is what is left of the \<open>for ... in\<close>
  loop over the properties of \<open>source\<close>.  An assignment \<open>result[key] = x\<close> keeps the
  position of an existing key and appends a new one.  The object that the recursive call
  returns is a new literal, whatever kind of object \<open>result[key]\<close> and \<open>source[key]\<close>
  were.  The key \<open>__proto__\<close>, which JavaScript reads and writes as the prototype
  and not as a property, is taken like any other here; no well-formed object has it.
\<close>

function mergeLoop :: "bool \<Rightarrow> obj \<Rightarrow> obj \<Rightarrow> error + obj" where
  "mergeLoop throws result [] = Inr result"
| "mergeLoop throws result ((key, v) # rest) =
     (if throws then Inl TypeError
      else if isObject v \<and> isObject (get result key)
      then (case mergeLoop (hasOwnPropertyThrows v) (props (get result key)) (props v) of
              Inl e \<Rightarrow> Inl e
            | Inr merged \<Rightarrow> mergeLoop throws (AList.update key (JObj merged) result) rest)
      else mergeLoop throws (AList.update key v result) rest)"
  by pat_completeness auto
termination
  apply (relation "measure (\<lambda>(b, t, s). size (JObj s))")
     apply simp
  subgoal for throws result key v rest by (cases v) auto
  subgoal by simp
  subgoal by simp
  done

text \<open>
  \<open>deepMerge(target, source)\<close>: the loop runs over the properties of whatever
  \<open>source\<close> is, the elements of an array and the characters of a string included; a
  source without properties (\<open>null\<close>, a number) leaves the copy of the target.
\<close>

definition deepMerge :: "jv \<Rightarrow> jv \<Rightarrow> error + obj" where
  "deepMerge target source = mergeLoop (hasOwnPropertyThrows source) (props target) (props source)"

text \<open>\<open>createConfig(userConfig = {})\<close>: an argument left out is the empty object.\<close>

definition createConfig :: "jv \<Rightarrow> error + obj" where
  "createConfig userConfig =
     deepMerge (JObj defaultConfig) (if userConfig = JUndef then JObj [] else userConfig)"






section \<open>MediaFactory\<close>

datatype SourceClass = VideoClass | AudioClass | HLSClass | Mp4Class | DASHClass

text \<open>
  The HTML media element as far as the sources use it.  Its \<open>volume\<close> setter is the
  platform's: it throws \<open>IndexSizeError\<close> for a value outside the range 0 to 1.
\<close>

record media_element =
  el_src :: jv
  el_volume :: real
  el_muted :: bool
  el_paused :: bool
  el_currentTime :: real
  el_playbackRate :: real

definition set_el_volume :: "real \<Rightarrow> media_element \<Rightarrow> error + media_element" where
  "set_el_volume v el =
     (if v < 0 \<or> 1 < v then Inl IndexSizeError else Inr (el\<lparr>el_volume := v\<rparr>))"

text \<open>
  A media source: the fields of \<open>VideoSource\<close>, which every backend class extends,
  and the class it was constructed from.
\<close>

record VideoSource =
  kind :: SourceClass
  url :: jv
  videoElement :: "media_element option"
  isLoaded :: bool

text \<open>\<open>new SourceClass({ url, config })\<close>: no element yet, nothing loaded.\<close>

definition newSource :: "SourceClass \<Rightarrow> jv \<Rightarrow> VideoSource" where
  "newSource cls u = \<lparr>kind = cls, url = u, videoElement = None, isLoaded = False\<rparr>"

text \<open>The \<open>sourceTypes\<close> map the constructor fills.\<close>

definition sourceTypes :: "(string \<times> SourceClass) list" where
  "sourceTypes =
     [(''video'', VideoClass), (''audio'', AudioClass), (''hls'', HLSClass),
      (''mp4'', Mp4Class), (''dash'', DASHClass)]"

text \<open>
  \<open>String.prototype.toLowerCase\<close> on the ASCII letters: the codes 65 to 90 get 32
  added, which sets bit 5.  No other character lowers to a character of the patterns
  below.
\<close>

definition lowerChar :: "char \<Rightarrow> char" where
  "lowerChar c =
     (if 65 \<le> (of_char c :: nat) \<and> (of_char c :: nat) \<le> 90
      then (case c of Char b0 b1 b2 b3 b4 b5 b6 b7 \<Rightarrow> Char b0 b1 b2 b3 b4 True b6 b7)
      else c)"

definition toLowerCase :: "string \<Rightarrow> string" where
  "toLowerCase s = map lowerChar s"

text \<open>\<open>s.includes(pat)\<close>.\<close>

fun js_includes :: "string \<Rightarrow> string \<Rightarrow> bool" where
  "js_includes [] pat = (pat = [])"
| "js_includes (c # cs) pat = (prefix pat (c # cs) \<or> js_includes cs pat)"

text \<open>
  \<open>s.match(/\.(e1|e2|...)(\?|$)/)\<close>: somewhere in \<open>s\<close> a dot, one of the
  extensions, and then a question mark or the end of the string.
\<close>

fun matchExt :: "string list \<Rightarrow> string \<Rightarrow> bool" where
  "matchExt exts [] = False"
| "matchExt exts (c # cs) =
     ((c = CHR ''.'' \<and> list_ex (\<lambda>e. cs = e \<or> prefix (e @ ''?'') cs) exts)
      \<or> matchExt exts cs)"

text \<open>
  \<open>detectMediaType(url, config)\<close>.  \<open>url.toLowerCase()\<close> is a \<open>TypeError\<close> for
  a \<open>url\<close> that is not a string.
\<close>

definition detectMediaType :: "jv \<Rightarrow> obj \<Rightarrow> error + jv" where
  "detectMediaType u config =
    (if truthy (get config ''priority'') then Inr (get config ''priority'')
     else case u of
       JStr s \<Rightarrow>
         (let urlLower = toLowerCase s in
          if js_includes urlLower ''.m3u8'' \<or> js_includes urlLower ''hls'' then Inr (JStr ''hls'')
          else if js_includes urlLower ''.mpd'' \<or> js_includes urlLower ''dash'' then Inr (JStr ''dash'')
          else if matchExt [''mp3'', ''wav'', ''aac'', ''ogg''] urlLower then Inr (JStr ''audio'')
          else if matchExt [''mp4'', ''webm'', ''flv'', ''avi'', ''mov''] urlLower then Inr (JStr ''video'')
          else Inr (JStr ''video''))
     | _ \<Rightarrow> Inl TypeError)"

text \<open>\<open>this.sourceTypes.get(detectedType)\<close>: only a string is a key of the map.\<close>

fun sourceClassOf :: "(string \<times> SourceClass) list \<Rightarrow> jv \<Rightarrow> SourceClass option" where
  "sourceClassOf types (JStr t) = map_of types t"
| "sourceClassOf types _ = None"

definition createMediaSource ::
    "(string \<times> SourceClass) list \<Rightarrow> jv \<Rightarrow> jv \<Rightarrow> obj \<Rightarrow> error + VideoSource" where
  "createMediaSource types u type config =
    (case (if truthy type then Inr type else detectMediaType u config) of
       Inl e \<Rightarrow> Inl e
     | Inr detectedType \<Rightarrow>
         (case sourceClassOf types detectedType of
            None \<Rightarrow> Inl (UnsupportedMediaType detectedType)
          | Some cls \<Rightarrow> Inr (newSource cls u)))"

section \<open>EventManager\<close>

text \<open>
  A subscribed callback: the identity of the function object, which \<open>off\<close> compares with
  \<open>===\<close>, and what calling it (bound to the subscription's \<open>context\<close>) with the event
  data does: to the world outside the event manager, which it may change before it
  throws, and to the event manager itself, by the calls of \<open>on\<close>, \<open>once\<close>, \<open>off\<close>,
  \<open>clear\<close> and \<open>clearAll\<close> that it makes, in their order.  A callback that calls \<open>emit\<close>
  itself is not among the listeners described here.
\<close>

datatype ('d, 'w) listener =
  Listener (callback: nat) (body: "'d \<Rightarrow> 'w \<Rightarrow> 'w outcome \<times> ('d, 'w) command list")
and ('d, 'w) command =
    On string "('d, 'w) listener"
  | Once string "('d, 'w) listener"
  | Off string nat
  | Clear string
  | ClearAll

text \<open>The two maps from an event name to its array of listeners.\<close>

record ('d, 'w) EventManager =
  events :: "string \<rightharpoonup> ('d, 'w) listener list"
  onceEvents :: "string \<rightharpoonup> ('d, 'w) listener list"

definition newEventManager :: "('d, 'w) EventManager" where
  "newEventManager = \<lparr>events = Map.empty, onceEvents = Map.empty\<rparr>"

definition on :: "string \<Rightarrow> ('d, 'w) listener \<Rightarrow> ('d, 'w) EventManager \<Rightarrow> ('d, 'w) EventManager" where
  "on eventName l em =
     (let listeners = (case events em eventName of None \<Rightarrow> [] | Some ls \<Rightarrow> ls)
      in em\<lparr>events := (events em)(eventName \<mapsto> listeners @ [l])\<rparr>)"

definition once :: "string \<Rightarrow> ('d, 'w) listener \<Rightarrow> ('d, 'w) EventManager \<Rightarrow> ('d, 'w) EventManager" where
  "once eventName l em =
     (let listeners = (case onceEvents em eventName of None \<Rightarrow> [] | Some ls \<Rightarrow> ls)
      in em\<lparr>onceEvents := (onceEvents em)(eventName \<mapsto> listeners @ [l])\<rparr>)"

text \<open>\<open>listeners.splice(index, 1)\<close> at the first listener with that callback.\<close>

fun removeFirst :: "nat \<Rightarrow> ('d, 'w) listener list \<Rightarrow> ('d, 'w) listener list" where
  "removeFirst cb [] = []"
| "removeFirst cb (l # ls) = (if callback l = cb then ls else l # removeFirst cb ls)"

definition off :: "string \<Rightarrow> nat \<Rightarrow> ('d, 'w) EventManager \<Rightarrow> ('d, 'w) EventManager" where
  "off eventName cb em =
     (case events em eventName of
        None \<Rightarrow> em
      | Some listeners \<Rightarrow> em\<lparr>events := (events em)(eventName \<mapsto> removeFirst cb listeners)\<rparr>)"

definition clear :: "string \<Rightarrow> ('d, 'w) EventManager \<Rightarrow> ('d, 'w) EventManager" where
  "clear eventName em =
     em\<lparr>events := (events em)(eventName := None),
        onceEvents := (onceEvents em)(eventName := None)\<rparr>"

definition clearAll :: "('d, 'w) EventManager \<Rightarrow> ('d, 'w) EventManager" where
  "clearAll em = em\<lparr>events := Map.empty, onceEvents := Map.empty\<rparr>"

text \<open>A call that a callback makes on the event manager.\<close>

fun exec :: "('d, 'w) command \<Rightarrow> ('d, 'w) EventManager \<Rightarrow> ('d, 'w) EventManager" where
  "exec (On n l) em = on n l em"
| "exec (Once n l) em = once n l em"
| "exec (Off n cb) em = off n cb em"
| "exec (Clear n) em = clear n em"
| "exec ClearAll em = clearAll em"

text \<open>
  \<open>emit\<close> walks two arrays with \<open>forEach\<close>: the one it got from \<open>events\<close>, then the
  one it got from \<open>onceEvents\<close>.  The array is the very object that the map holds, so
  what \<open>on\<close>, \<open>once\<close> and \<open>off\<close> do to the entry of the map during the walk is done to
  the array that is walked; only when \<open>clear\<close> or \<open>clearAll\<close> has removed the entry
  from the map is the array out of their reach, and it is then kept here beside the
  manager.
\<close>

datatype phase = Regular | OnceOnly

definition listenersOf ::
    "phase \<Rightarrow> ('d, 'w) EventManager \<Rightarrow> string \<rightharpoonup> ('d, 'w) listener list" where
  "listenersOf ph em = (case ph of Regular \<Rightarrow> events em | OnceOnly \<Rightarrow> onceEvents em)"

definition walked ::
    "phase \<Rightarrow> string \<Rightarrow> ('d, 'w) EventManager \<Rightarrow> ('d, 'w) listener list option
       \<Rightarrow> ('d, 'w) listener list" where
  "walked ph eventName em detached =
     (case detached of
        Some arr \<Rightarrow> arr
      | None \<Rightarrow> (case listenersOf ph em eventName of None \<Rightarrow> [] | Some arr \<Rightarrow> arr))"

fun detaches :: "string \<Rightarrow> ('d, 'w) command \<Rightarrow> bool" where
  "detaches eventName (Clear n) = (n = eventName)"
| "detaches eventName ClearAll = True"
| "detaches eventName _ = False"

definition runCommand ::
    "phase \<Rightarrow> string \<Rightarrow> ('d, 'w) EventManager \<times> ('d, 'w) listener list option
       \<Rightarrow> ('d, 'w) command \<Rightarrow> ('d, 'w) EventManager \<times> ('d, 'w) listener list option" where
  "runCommand ph eventName st c =
     (case st of (em, detached) \<Rightarrow>
        (exec c em,
         if detached = None \<and> detaches eventName c
         then Some (walked ph eventName em None) else detached))"

text \<open>
  The state of a dispatch: the manager, the walked array if it has left the map, the
  outside world, and the console, which gets one line for each caught exception.
\<close>

type_synonym ('d, 'w) dispatch =
  "('d, 'w) EventManager \<times> ('d, 'w) listener list option \<times> 'w \<times> string list"

text \<open>The body of the \<open>forEach\<close>: the call of one callback inside \<open>try\<close>/\<open>catch\<close>.\<close>

definition callListener ::
    "string \<Rightarrow> phase \<Rightarrow> string \<Rightarrow> 'd \<Rightarrow> ('d, 'w) listener \<Rightarrow> ('d, 'w) dispatch
       \<Rightarrow> ('d, 'w) dispatch" where
  "callListener msg ph eventName d l st =
     (case st of (em, detached, w, console) \<Rightarrow>
        (case body l d w of (result, commands) \<Rightarrow>
           (case foldl (runCommand ph eventName) (em, detached) commands of (em', detached') \<Rightarrow>
              (case result of
                 Returns w' \<Rightarrow> (em', detached', w', console)
               | Throws err w' \<Rightarrow> (em', detached', w', console @ [msg])))))"

text \<open>
  \<open>listeners.forEach(...)\<close> from index \<open>k\<close>: \<open>Array.prototype.forEach\<close> reads the
  length once, before the first call, and then visits the indices below it that the array
  still has when their turn comes.
\<close>

function forEachFrom ::
    "nat \<Rightarrow> nat \<Rightarrow> string \<Rightarrow> phase \<Rightarrow> string \<Rightarrow> 'd \<Rightarrow> ('d, 'w) dispatch \<Rightarrow> ('d, 'w) dispatch" where
  "forEachFrom k len msg ph eventName d st =
     (if k < len
      then forEachFrom (Suc k) len msg ph eventName d
             (case st of (em, detached, w, console) \<Rightarrow>
                if k < length (walked ph eventName em detached)
                then callListener msg ph eventName d (walked ph eventName em detached ! k) st
                else st)
      else st)"
  by pat_completeness auto
termination
  by (relation "measure (\<lambda>(k, len, msg, ph, eventName, d, st). len - k)") auto

declare forEachFrom.simps [simp del]

text \<open>\<open>emit(eventName, data)\<close>, from a world and a console to the manager, world and console after it.\<close>

definition emit ::
    "string \<Rightarrow> 'd \<Rightarrow> ('d, 'w) EventManager \<Rightarrow> 'w \<times> string list
       \<Rightarrow> ('d, 'w) EventManager \<times> 'w \<times> string list" where
  "emit eventName d em st =
     (case st of (w, console) \<Rightarrow>
      (case (case events em eventName of
               None \<Rightarrow> (em, None, w, console)
             | Some listeners \<Rightarrow>
                 forEachFrom 0 (length listeners)
                   (''Error in event listener for '' @ eventName @ '':'')
                   Regular eventName d (em, None, w, console)) of
         (em1, detached1, w1, console1) \<Rightarrow>
           (case onceEvents em1 eventName of
              None \<Rightarrow> (em1, w1, console1)
            | Some listeners \<Rightarrow>
                (case forEachFrom 0 (length listeners)
                        (''Error in once event listener for '' @ eventName @ '':'')
                        OnceOnly eventName d (em1, None, w1, console1) of
                   (em2, detached2, w2, console2) \<Rightarrow>
                     (em2\<lparr>onceEvents := (onceEvents em2)(eventName := None)\<rparr>, w2, console2)))))"

section \<open>VideoSource\<close>

text \<open>
  \<open>play()\<close>: \<open>allowed\<close> tells whether the platform resolves the promise of the
  element's \<open>play()\<close>; a rejection is \<open>NotAllowedError\<close>.
\<close>

definition VideoSource_play :: "bool \<Rightarrow> VideoSource \<Rightarrow> error + VideoSource" where
  "VideoSource_play allowed vs =
     (case videoElement vs of
        None \<Rightarrow> Inl (Error ''Video not loaded'')
      | Some el \<Rightarrow>
          if allowed then Inr (vs\<lparr>videoElement := Some (el\<lparr>el_paused := False\<rparr>)\<rparr>)
          else Inl NotAllowedError)"

definition VideoSource_pause :: "VideoSource \<Rightarrow> VideoSource" where
  "VideoSource_pause vs =
     (case videoElement vs of
        None \<Rightarrow> vs
      | Some el \<Rightarrow> vs\<lparr>videoElement := Some (el\<lparr>el_paused := True\<rparr>)\<rparr>)"

definition VideoSource_seek :: "real \<Rightarrow> VideoSource \<Rightarrow> VideoSource" where
  "VideoSource_seek time vs =
     (case videoElement vs of
        None \<Rightarrow> vs
      | Some el \<Rightarrow> vs\<lparr>videoElement := Some (el\<lparr>el_currentTime := time\<rparr>)\<rparr>)"

definition VideoSource_setVolume :: "real \<Rightarrow> VideoSource \<Rightarrow> error + VideoSource" where
  "VideoSource_setVolume v vs =
     (case videoElement vs of
        None \<Rightarrow> Inr vs
      | Some el \<Rightarrow>
          (case set_el_volume (max 0 (min 1 v)) el of
             Inl e \<Rightarrow> Inl e
           | Inr el' \<Rightarrow> Inr (vs\<lparr>videoElement := Some el'\<rparr>)))"

definition setMuted :: "bool \<Rightarrow> VideoSource \<Rightarrow> VideoSource" where
  "setMuted m vs =
     (case videoElement vs of
        None \<Rightarrow> vs
      | Some el \<Rightarrow> vs\<lparr>videoElement := Some (el\<lparr>el_muted := m\<rparr>)\<rparr>)"

definition VideoSource_setPlaybackRate :: "real \<Rightarrow> VideoSource \<Rightarrow> VideoSource" where
  "VideoSource_setPlaybackRate rate vs =
     (case videoElement vs of
        None \<Rightarrow> vs
      | Some el \<Rightarrow> vs\<lparr>videoElement := Some (el\<lparr>el_playbackRate := rate\<rparr>)\<rparr>)"

definition loadUrl :: "jv \<Rightarrow> VideoSource \<Rightarrow> VideoSource" where
  "loadUrl u vs =
     (let vs1 = vs\<lparr>url := u\<rparr>
      in case videoElement vs1 of
           None \<Rightarrow> vs1
         | Some el \<Rightarrow> vs1\<lparr>videoElement := Some (el\<lparr>el_src := u\<rparr>)\<rparr>)"

text \<open>\<open>destroy()\<close>: the element is paused and emptied, then the source lets go of it.\<close>

definition VideoSource_destroy :: "VideoSource \<Rightarrow> VideoSource" where
  "VideoSource_destroy vs = vs\<lparr>videoElement := None, isLoaded := False\<rparr>"

section \<open>PlayerInstance\<close>

record PlaybackState =
  currentTime :: real
  duration :: real
  volume :: real
  muted :: bool
  playing :: bool
  buffering :: bool
  fullscreen :: bool
  pip :: bool
  quality :: string
  playbackRate :: real
  seeking :: bool

record PlayerInstance =
  instanceId :: string
  container :: jv
  config :: obj
  state :: PlaybackState
  mediaSource :: "VideoSource option"

definition initialState :: PlaybackState where
  "initialState =
     \<lparr>currentTime = 0, duration = 0, volume = 1, muted = False, playing = False,
      buffering = False, fullscreen = False, pip = False, quality = ''auto'',
      playbackRate = 1, seeking = False\<rparr>"

text \<open>
  The constructor with the part of \<open>init()\<close> that runs before its first \<open>await\<close>.
  An exception of \<open>createMediaSource\<close> is caught there, and \<open>this.mediaSource\<close> stays
  undefined.  The calls into the UI, analytics and ad managers and into the shared event
  manager write none of the fields of this record; they are left out here and below.
\<close>

definition newPlayerInstance ::
    "(string \<times> SourceClass) list \<Rightarrow> string \<Rightarrow> jv \<Rightarrow> obj \<Rightarrow> PlayerInstance" where
  "newPlayerInstance types pid containerElement playerConfig =
     \<lparr>instanceId = pid, container = containerElement, config = playerConfig,
      state = initialState,
      mediaSource =
        (case createMediaSource types (get playerConfig ''videoUrl'')
                (get playerConfig ''mediaType'') playerConfig of
           Inl e \<Rightarrow> None
         | Inr ms \<Rightarrow> Some ms)\<rparr>"

text \<open>
  \<open>play()\<close> is asynchronous and catches every exception, a missing media source
  included; what it returns is the instance once its promise has settled.
\<close>

definition PlayerInstance_play :: "bool \<Rightarrow> PlayerInstance \<Rightarrow> PlayerInstance outcome" where
  "PlayerInstance_play allowed inst =
     (case mediaSource inst of
        None \<Rightarrow> Returns inst
      | Some ms \<Rightarrow>
          (case VideoSource_play allowed ms of
             Inl e \<Rightarrow> Returns inst
           | Inr ms' \<Rightarrow>
               Returns (inst\<lparr>mediaSource := Some ms',
                              state := (state inst)\<lparr>playing := True\<rparr>\<rparr>)))"

definition PlayerInstance_pause :: "PlayerInstance \<Rightarrow> PlayerInstance outcome" where
  "PlayerInstance_pause inst =
     (case mediaSource inst of
        None \<Rightarrow> Throws TypeError inst
      | Some ms \<Rightarrow>
          Returns (inst\<lparr>mediaSource := Some (VideoSource_pause ms),
                         state := (state inst)\<lparr>playing := False\<rparr>\<rparr>))"

definition PlayerInstance_seek :: "real \<Rightarrow> PlayerInstance \<Rightarrow> PlayerInstance outcome" where
  "PlayerInstance_seek time inst =
     (case mediaSource inst of
        None \<Rightarrow> Throws TypeError inst
      | Some ms \<Rightarrow> Returns (inst\<lparr>mediaSource := Some (VideoSource_seek time ms)\<rparr>))"

definition PlayerInstance_setVolume :: "real \<Rightarrow> PlayerInstance \<Rightarrow> PlayerInstance outcome" where
  "PlayerInstance_setVolume v inst =
     (case mediaSource inst of
        None \<Rightarrow> Throws TypeError inst
      | Some ms \<Rightarrow>
          (case VideoSource_setVolume v ms of
             Inl e \<Rightarrow> Throws e inst
           | Inr ms' \<Rightarrow>
               Returns (inst\<lparr>mediaSource := Some ms',
                              state := (state inst)\<lparr>volume := v, muted := (v = 0)\<rparr>\<rparr>)))"

definition toggleMute :: "PlayerInstance \<Rightarrow> PlayerInstance outcome" where
  "toggleMute inst =
     (let newMuted = \<not> muted (state inst)
      in case mediaSource inst of
           None \<Rightarrow> Throws TypeError inst
         | Some ms \<Rightarrow>
             Returns (inst\<lparr>mediaSource := Some (setMuted newMuted ms),
                            state := (state inst)\<lparr>muted := newMuted\<rparr>\<rparr>))"

definition PlayerInstance_setPlaybackRate :: "real \<Rightarrow> PlayerInstance \<Rightarrow> PlayerInstance outcome" where
  "PlayerInstance_setPlaybackRate rate inst =
     (case mediaSource inst of
        None \<Rightarrow> Throws TypeError inst
      | Some ms \<Rightarrow>
          Returns (inst\<lparr>mediaSource := Some (VideoSource_setPlaybackRate rate ms),
                         state := (state inst)\<lparr>playbackRate := rate\<rparr>\<rparr>))"

text \<open>\<open>setQuality\<close> of the sources under \<open>src/\<close> that do not switch only logs.\<close>

definition PlayerInstance_setQuality :: "string \<Rightarrow> PlayerInstance \<Rightarrow> PlayerInstance outcome" where
  "PlayerInstance_setQuality q inst =
     (case mediaSource inst of
        None \<Rightarrow> Throws TypeError inst
      | Some ms \<Rightarrow> Returns (inst\<lparr>state := (state inst)\<lparr>quality := q\<rparr>\<rparr>))"

text \<open>\<open>toggleFullscreen()\<close>; the argument is \<open>document.fullscreenElement\<close> being set.\<close>

definition toggleFullscreen :: "bool \<Rightarrow> PlayerInstance \<Rightarrow> PlayerInstance outcome" where
  "toggleFullscreen documentFullscreen inst =
     Returns (inst\<lparr>state := (state inst)\<lparr>fullscreen := \<not> documentFullscreen\<rparr>\<rparr>)"

text \<open>
  \<open>togglePictureInPicture()\<close>; the argument is what \<open>supportsPiP()\<close> of the media
  source answers.  Reading \<open>config.pip.enabled\<close> is a \<open>TypeError\<close> when \<open>config.pip\<close>
  is undefined or null, and so is the call on a missing media source.
\<close>

definition togglePictureInPicture :: "bool \<Rightarrow> PlayerInstance \<Rightarrow> PlayerInstance outcome" where
  "togglePictureInPicture supportsPiP inst =
     (let pipConfig = get (config inst) ''pip''
      in if pipConfig = JUndef \<or> pipConfig = JNull then Throws TypeError inst
         else if truthy (get (props pipConfig) ''enabled'')
         then (case mediaSource inst of
                 None \<Rightarrow> Throws TypeError inst
               | Some ms \<Rightarrow>
                   if supportsPiP
                   then Returns (inst\<lparr>state := (state inst)\<lparr>pip := \<not> pip (state inst)\<rparr>\<rparr>)
                   else Returns inst)
         else Returns inst)"

definition handlePlay :: "PlayerInstance \<Rightarrow> PlayerInstance outcome" where
  "handlePlay inst = Returns (inst\<lparr>state := (state inst)\<lparr>playing := True\<rparr>\<rparr>)"

definition handlePause :: "PlayerInstance \<Rightarrow> PlayerInstance outcome" where
  "handlePause inst = Returns (inst\<lparr>state := (state inst)\<lparr>playing := False\<rparr>\<rparr>)"

definition loadVideo :: "jv \<Rightarrow> PlayerInstance \<Rightarrow> PlayerInstance outcome" where
  "loadVideo u inst =
     (case mediaSource inst of
        None \<Rightarrow> Throws TypeError inst
      | Some ms \<Rightarrow> Returns (inst\<lparr>mediaSource := Some (loadUrl u ms)\<rparr>))"

text \<open>
  \<open>handleEnded()\<close>: \<open>config.nextVideo.url\<close> is read only when \<open>config.nextVideo\<close> is
  truthy; a truthy value has a \<open>url\<close> only as a property of its own.
\<close>

definition handleEnded :: "PlayerInstance \<Rightarrow> PlayerInstance outcome" where
  "handleEnded inst =
     (let inst1 = inst\<lparr>state := (state inst)\<lparr>playing := False\<rparr>\<rparr>;
          nextVideo = get (config inst1) ''nextVideo''
      in if truthy nextVideo \<and> truthy (get (props nextVideo) ''url'')
         then loadVideo (get (props nextVideo) ''url'') inst1
         else Returns inst1)"

definition handleTimeUpdate :: "real \<Rightarrow> real \<Rightarrow> PlayerInstance \<Rightarrow> PlayerInstance outcome" where
  "handleTimeUpdate ct d inst =
     Returns (inst\<lparr>state := (state inst)\<lparr>currentTime := ct, duration := d\<rparr>\<rparr>)"

definition handleVolumeChange :: "real \<Rightarrow> bool \<Rightarrow> PlayerInstance \<Rightarrow> PlayerInstance outcome" where
  "handleVolumeChange v m inst =
     Returns (inst\<lparr>state := (state inst)\<lparr>volume := v, muted := m\<rparr>\<rparr>)"

text \<open>
  The \<open>volumechange\<close> event of the video element, which the element fires after a
  write to its \<open>volume\<close> or \<open>muted\<close>: \<open>handleVideoEvent\<close> of the media source reads
  \<open>volume\<close> and \<open>muted\<close> off the element (\<open>extractEventData\<close>) and emits them, and the
  listener that \<open>setupEventListeners\<close> subscribed passes them to \<open>handleVolumeChange\<close>.
\<close>

definition volumeChangeEvent :: "PlayerInstance \<Rightarrow> PlayerInstance outcome" where
  "volumeChangeEvent inst =
     (case mediaSource inst of
        None \<Rightarrow> Returns inst
      | Some ms \<Rightarrow>
          (case videoElement ms of
             None \<Rightarrow> Returns inst
           | Some el \<Rightarrow> handleVolumeChange (el_volume el) (el_muted el) inst))"

definition handleSeeking :: "PlayerInstance \<Rightarrow> PlayerInstance outcome" where
  "handleSeeking inst = Returns (inst\<lparr>state := (state inst)\<lparr>seeking := True\<rparr>\<rparr>)"

definition handleSeeked :: "PlayerInstance \<Rightarrow> PlayerInstance outcome" where
  "handleSeeked inst = Returns (inst\<lparr>state := (state inst)\<lparr>seeking := False\<rparr>\<rparr>)"

text \<open>
  \<open>destroy()\<close> ends the life of the instance: its media source, if any, is destroyed,
  and the instance keeps the reference.
\<close>

definition PlayerInstance_destroy :: "PlayerInstance \<Rightarrow> PlayerInstance" where
  "PlayerInstance_destroy inst =
     inst\<lparr>mediaSource := map_option VideoSource_destroy (mediaSource inst)\<rparr>"

text \<open>
  What can happen to a live instance: an event of its media source, which
  \<open>setupEventListeners\<close> routes to a handler, or a call of a public method.  A call of
  \<open>play()\<close> stands for the moment its promise settles.
\<close>

datatype action =
    MediaPlay | MediaPause | MediaEnded
  | MediaTimeUpdate real real | MediaVolumeChange real bool | MediaSeeking | MediaSeeked
  | CallPlay bool | CallPause | CallSeek real | CallSetVolume real | CallToggleMute
  | CallSetPlaybackRate real | CallSetQuality string | CallToggleFullscreen bool
  | CallTogglePictureInPicture bool | CallLoadVideo jv

fun step :: "action \<Rightarrow> PlayerInstance \<Rightarrow> PlayerInstance outcome" where
  "step MediaPlay inst = handlePlay inst"
| "step MediaPause inst = handlePause inst"
| "step MediaEnded inst = handleEnded inst"
| "step (MediaTimeUpdate ct d) inst = handleTimeUpdate ct d inst"
| "step (MediaVolumeChange v m) inst = handleVolumeChange v m inst"
| "step MediaSeeking inst = handleSeeking inst"
| "step MediaSeeked inst = handleSeeked inst"
| "step (CallPlay allowed) inst = PlayerInstance_play allowed inst"
| "step CallPause inst = PlayerInstance_pause inst"
| "step (CallSeek t) inst = PlayerInstance_seek t inst"
| "step (CallSetVolume v) inst = PlayerInstance_setVolume v inst"
| "step CallToggleMute inst = toggleMute inst"
| "step (CallSetPlaybackRate r) inst = PlayerInstance_setPlaybackRate r inst"
| "step (CallSetQuality q) inst = PlayerInstance_setQuality q inst"
| "step (CallToggleFullscreen b) inst = toggleFullscreen b inst"
| "step (CallTogglePictureInPicture b) inst = togglePictureInPicture b inst"
| "step (CallLoadVideo u) inst = loadVideo u inst"

text \<open>A history of the instance; an exception leaves it as the throwing call left it.\<close>

fun run :: "action list \<Rightarrow> PlayerInstance \<Rightarrow> PlayerInstance" where
  "run [] inst = inst"
| "run (a # as) inst = run as (final (step a inst))"

section \<open>UniversalPlayer\<close>




section \<open>AnalyticsManager\<close>

text \<open>
  The \<open>eventTracking\<close> options the manager reads: \<open>enabled\<close> as its truth value,
  the threshold as the number it is compared as, the endpoint as a string (empty when not
  configured).  The context fields copied into every event (\<open>cdn\<close>, \<open>isp\<close>, \<open>geo\<close>,
  ...) are left out.
\<close>

record trackingConfig =
  enabled :: bool
  viewedThreshold :: jsnum
  trackingUrl :: string

record event =
  eventType :: string
  playerId :: string
  timestamp :: int
  ev_sessionId :: "string option"
  payload :: obj

record session =
  sessionId :: string
  startTime :: int
  totalPlayTime :: int
  seekCount :: nat
  qualityChanges :: nat
  maxProgress :: jsnum
  sessionEvents :: "event list"
  lastPlayTime :: "int option"

record AnalyticsManager =
  trackerConfig :: "trackingConfig option"
  viewedThresholds :: "string set"
  sessionData :: "string \<rightharpoonup> session"
  trackingQueue :: "event list"
  isTracking :: bool









text \<open>
  What \<open>fetch\<close> does with a batch: it resolves with a response of some status
  (\<open>response.ok\<close> is a status from 200 to 299), or it rejects.
\<close>

datatype fetchResult = Responded nat | Rejected

text \<open>
  \<open>sendEvents(events)\<close>.  \<open>arrivals\<close> are the events that \<open>track\<close> queued while the
  request was pending.
\<close>

definition sendEvents ::
    "fetchResult \<Rightarrow> event list \<Rightarrow> event list \<Rightarrow> AnalyticsManager \<Rightarrow> error + AnalyticsManager" where
  "sendEvents res arrivals evs am =
     (case trackerConfig am of
        None \<Rightarrow> Inl TypeError
      | Some cfg \<Rightarrow>
          if trackingUrl cfg = [] then Inr am
          else
            (let am1 = am\<lparr>trackingQueue := trackingQueue am @ arrivals\<rparr>
             in case res of
                  Responded status \<Rightarrow> Inr am1
                | Rejected \<Rightarrow> Inr (am1\<lparr>trackingQueue := evs @ trackingQueue am1\<rparr>)))"

text \<open>
  One turn of the loop of \<open>processTrackingQueue\<close>: the batch is the first ten events,
  \<open>splice\<close> takes them off the queue, and \<open>duringSleep\<close> are the events queued during
  the pause that follows.
\<close>

definition flushCycle ::
    "fetchResult \<times> event list \<times> event list \<Rightarrow> AnalyticsManager \<Rightarrow> error + AnalyticsManager" where
  "flushCycle c am =
     (case c of (res, duringFetch, duringSleep) \<Rightarrow>
        (case (if length (trackingQueue am) > 0
               then sendEvents res duringFetch (take 10 (trackingQueue am))
                      (am\<lparr>trackingQueue := drop 10 (trackingQueue am)\<rparr>)
               else Inr am) of
           Inl e \<Rightarrow> Inl e
         | Inr am1 \<Rightarrow> Inr (am1\<lparr>trackingQueue := trackingQueue am1 @ duringSleep\<rparr>)))"

text \<open>
  The loop \<open>while (this.isTracking)\<close> runs for as long as the page lives; it is given
  what happens in each of its turns, and stops with the list.  An exception ends it.
\<close>

fun processTrackingQueue ::
    "(fetchResult \<times> event list \<times> event list) list \<Rightarrow> AnalyticsManager \<Rightarrow> error + AnalyticsManager" where
  "processTrackingQueue [] am = Inr am"
| "processTrackingQueue (c # cs) am =
     (if isTracking am
      then (case flushCycle c am of Inl e \<Rightarrow> Inl e | Inr am1 \<Rightarrow> processTrackingQueue cs am1)
      else Inr am)"

section \<open>Notions of the specification and example objects\<close>

text \<open>
  An instance whose source has loaded: the element of the page is attached and plays
  \<open>a.mp4\<close>.
\<close>

definition exampleElement :: media_element where
  "exampleElement =
     \<lparr>el_src = JStr ''a.mp4'', el_volume = 1, el_muted = False, el_paused = True,
      el_currentTime = 0, el_playbackRate = 1\<rparr>"

definition exampleSource :: VideoSource where
  "exampleSource =
     \<lparr>kind = Mp4Class, url = JStr ''a.mp4'', videoElement = Some exampleElement,
      isLoaded = True\<rparr>"

definition exampleInstance :: PlayerInstance where
  "exampleInstance =
     \<lparr>instanceId = ''up_1'', container = JObj [], config = [], state = initialState,
      mediaSource = Some exampleSource\<rparr>"

text \<open>The \<open>muted\<close> flag of the video element of the instance, if it has one.\<close>

definition elementMuted :: "PlayerInstance \<Rightarrow> bool option" where
  "elementMuted inst =
     (case mediaSource inst of
        None \<Rightarrow> None
      | Some ms \<Rightarrow> map_option el_muted (videoElement ms))"

text \<open>
  The most recent of the play, pause and ended events of the media source in a history
  (the head of the list is the oldest action).
\<close>

fun lastMediaEvent :: "action list \<Rightarrow> action option" where
  "lastMediaEvent [] = None"
| "lastMediaEvent (a # as) =
     (case lastMediaEvent as of
        Some b \<Rightarrow> Some b
      | None \<Rightarrow> if a = MediaPlay \<or> a = MediaPause \<or> a = MediaEnded then Some a else None)"

text \<open>
  What an action writes to \<open>state.playing\<close>, for an instance that has a media source
  (\<open>src\<close>) whose video element is attached (\<open>el\<close>); \<open>None\<close> when it writes nothing.
\<close>

fun playingWrite :: "bool \<Rightarrow> bool \<Rightarrow> action \<Rightarrow> bool option" where
  "playingWrite src el MediaPlay = Some True"
| "playingWrite src el MediaPause = Some False"
| "playingWrite src el MediaEnded = Some False"
| "playingWrite src el (CallPlay allowed) = (if src \<and> el \<and> allowed then Some True else None)"
| "playingWrite src el CallPause = (if src then Some False else None)"
| "playingWrite src el _ = None"

fun lastPlayingWrite :: "bool \<Rightarrow> bool \<Rightarrow> action list \<Rightarrow> bool option" where
  "lastPlayingWrite src el [] = None"
| "lastPlayingWrite src el (a # as) =
     (case lastPlayingWrite src el as of
        Some b \<Rightarrow> Some b
      | None \<Rightarrow> playingWrite src el a)"

text \<open>The calls that write \<open>state.playing\<close> themselves.\<close>

fun directWrite :: "action \<Rightarrow> bool" where
  "directWrite (CallPlay allowed) = True"
| "directWrite CallPause = True"
| "directWrite _ = False"

text \<open>The instance has a media source; the media source has its video element.\<close>

definition hasSource :: "PlayerInstance \<Rightarrow> bool" where
  "hasSource inst = (mediaSource inst \<noteq> None)"

definition hasElement :: "PlayerInstance \<Rightarrow> bool" where
  "hasElement inst =
     (case mediaSource inst of None \<Rightarrow> False | Some ms \<Rightarrow> videoElement ms \<noteq> None)"

text \<open>
  The switch of media URL as the specification words it: the current media source is
  destroyed and the factory creates a new one for the URL.
\<close>

definition recreateMediaSource ::
    "(string \<times> SourceClass) list \<Rightarrow> jv \<Rightarrow> PlayerInstance \<Rightarrow> PlayerInstance outcome" where
  "recreateMediaSource types u inst =
     (let inst1 = inst\<lparr>mediaSource := map_option VideoSource_destroy (mediaSource inst)\<rparr>
      in case createMediaSource types u (get (config inst) ''mediaType'') (config inst) of
           Inl e \<Rightarrow> Throws e inst1
         | Inr ms \<Rightarrow> Returns (inst1\<lparr>mediaSource := Some ms\<rparr>))"

text \<open>What stays of a media source however it is used: class, loaded flag, element attached.\<close>

definition sourceShape :: "PlayerInstance \<Rightarrow> (SourceClass \<times> bool \<times> bool) option" where
  "sourceShape inst =
     map_option (\<lambda>ms. (kind ms, isLoaded ms, videoElement ms \<noteq> None)) (mediaSource inst)"

text \<open>
  \<open>hasExtension exts s\<close>: the string \<open>s\<close> contains a dot followed by one of the
  extensions, and after it comes a question mark or nothing.
\<close>

definition hasExtension :: "string list \<Rightarrow> string \<Rightarrow> bool" where
  "hasExtension exts s =
     (\<exists>pre e post. e \<in> set exts \<and> s = pre @ ''.'' @ e @ post \<and>
        (post = [] \<or> (\<exists>r. post = CHR ''?'' # r)))"

text \<open>
  A value in which every object that \<open>deepMerge\<close> may enumerate can call
  \<open>hasOwnProperty\<close>: the value itself and, if it is an object, the values of its
  properties.  The elements of an array are never enumerated.
\<close>

fun mergeable :: "jv \<Rightarrow> bool" where
  "mergeable (JObj xs) =
     (\<not> hasOwnPropertyThrows (JObj xs) \<and> list_all (\<lambda>p. mergeable (snd p)) xs)"
| "mergeable (JOther inherits xs) =
     (\<not> hasOwnPropertyThrows (JOther inherits xs) \<and> list_all (\<lambda>p. mergeable (snd p)) xs)"
| "mergeable _ = True"

text \<open>A value built of object literals: no object in it or below it is of another kind.\<close>

fun literal :: "jv \<Rightarrow> bool" where
  "literal (JObj xs) = list_all (\<lambda>p. literal (snd p)) xs"
| "literal (JOther inherits xs) = False"
| "literal _ = True"

text \<open>
  What the loop of \<open>deepMerge\<close> makes of \<open>result\<close> and the properties of the source
  when no call of \<open>hasOwnProperty\<close> fails.
\<close>

function mergeProps :: "obj \<Rightarrow> obj \<Rightarrow> obj" where
  "mergeProps result [] = result"
| "mergeProps result ((key, v) # rest) =
     mergeProps
       (AList.update key
          (if isObject v \<and> isObject (get result key)
           then JObj (mergeProps (props (get result key)) (props v))
           else v)
          result)
       rest"
  by pat_completeness auto
termination
  apply (relation "measure (\<lambda>(t, s). size (JObj s))")
    apply simp
  subgoal for result key v rest by (cases v) auto
  subgoal by simp
  done






text \<open>The listeners subscribed to an event, in the order of their subscription.\<close>

definition subscribers :: "('d, 'w) EventManager \<Rightarrow> string \<Rightarrow> ('d, 'w) listener list" where
  "subscribers em eventName = (case events em eventName of None \<Rightarrow> [] | Some ls \<Rightarrow> ls)"

definition onceSubscribers :: "('d, 'w) EventManager \<Rightarrow> string \<Rightarrow> ('d, 'w) listener list" where
  "onceSubscribers em eventName = (case onceEvents em eventName of None \<Rightarrow> [] | Some ls \<Rightarrow> ls)"

text \<open>
  Calling the listeners one after the other, each on the world the one before left,
  whether it returned or threw; and the number of calls that threw.
\<close>

fun callAll :: "('d, 'w) listener list \<Rightarrow> 'd \<Rightarrow> 'w \<Rightarrow> 'w" where
  "callAll [] d w = w"
| "callAll (l # ls) d w = callAll ls d (final (fst (body l d w)))"

fun thrown :: "('d, 'w) listener list \<Rightarrow> 'd \<Rightarrow> 'w \<Rightarrow> nat" where
  "thrown [] d w = 0"
| "thrown (l # ls) d w =
     (case fst (body l d w) of Returns w' \<Rightarrow> 0 | Throws e w' \<Rightarrow> 1)
       + thrown ls d (final (fst (body l d w)))"

text \<open>
  A call on the event manager that touches the listeners of an event: it subscribes or
  unsubscribes a listener of the event, or clears them.
\<close>

fun concerns :: "string \<Rightarrow> ('d, 'w) command \<Rightarrow> bool" where
  "concerns eventName (On n l) = (n = eventName)"
| "concerns eventName (Once n l) = (n = eventName)"
| "concerns eventName (Off n cb) = (n = eventName)"
| "concerns eventName (Clear n) = (n = eventName)"
| "concerns eventName ClearAll = True"

text \<open>
  The listeners, called one after the other with the data \<open>d\<close> from the world \<open>w\<close> on,
  make no call on the event manager that touches the listeners of the event.
\<close>

fun quiet :: "string \<Rightarrow> ('d, 'w) listener list \<Rightarrow> 'd \<Rightarrow> 'w \<Rightarrow> bool" where
  "quiet eventName [] d w = True"
| "quiet eventName (l # ls) d w =
     (list_all (\<lambda>c. \<not> concerns eventName c) (snd (body l d w))
      \<and> quiet eventName ls d (final (fst (body l d w))))"

text \<open>
  Example listeners; each writes its number to the world, a list.  The second kind then
  throws; the third unsubscribes itself from \<open>play\<close>; the fourth subscribes a listener to
  \<open>play\<close> for one call; the fifth subscribes a listener to \<open>pause\<close>.
\<close>

definition logger :: "nat \<Rightarrow> (unit, nat list) listener" where
  "logger n = Listener n (\<lambda>d w. (Returns (w @ [n]), []))"

definition thrower :: "nat \<Rightarrow> (unit, nat list) listener" where
  "thrower n = Listener n (\<lambda>d w. (Throws TypeError (w @ [n]), []))"

definition leaver :: "nat \<Rightarrow> (unit, nat list) listener" where
  "leaver n = Listener n (\<lambda>d w. (Returns (w @ [n]), [Off ''play'' n]))"

definition resubscriber :: "nat \<Rightarrow> nat \<Rightarrow> (unit, nat list) listener" where
  "resubscriber n m = Listener n (\<lambda>d w. (Returns (w @ [n]), [Once ''play'' (logger m)]))"

definition recruiter :: "nat \<Rightarrow> nat \<Rightarrow> (unit, nat list) listener" where
  "recruiter n m = Listener n (\<lambda>d w. (Returns (w @ [n]), [On ''pause'' (logger m)]))"









definition exampleEvent :: event where
  "exampleEvent =
     \<lparr>eventType = ''play'', playerId = ''up_1'', timestamp = 0, ev_sessionId = Some ''s1'',
      payload = [(''currentTime'', jnum 0)]\<rparr>"

definition exampleSession :: session where
  "exampleSession =
     \<lparr>sessionId = ''s1'', startTime = 0, totalPlayTime = 0, seekCount = 0, qualityChanges = 0,
      maxProgress = Fin 0, sessionEvents = [], lastPlayTime = None\<rparr>"

definition exampleTracking :: trackingConfig where
  "exampleTracking =
     \<lparr>enabled = True, viewedThreshold = Fin (8/10), trackingUrl = ''https://t.example/collect''\<rparr>"

definition exampleAnalytics :: AnalyticsManager where
  "exampleAnalytics =
     \<lparr>trackerConfig = Some exampleTracking,
      viewedThresholds = {}, sessionData = [''up_1'' \<mapsto> exampleSession],
      trackingQueue = [exampleEvent], isTracking = True\<rparr>"

text \<open>Turns of the loop in which every request is rejected.\<close>

definition rejectedCycles ::
    "(event list \<times> event list) list \<Rightarrow> (fetchResult \<times> event list \<times> event list) list" where
  "rejectedCycles arrivals = map (\<lambda>(a, b). (Rejected, a, b)) arrivals"

definition allArrivals :: "(event list \<times> event list) list \<Rightarrow> event list" where
  "allArrivals arrivals = concat (map (\<lambda>(a, b). a @ b) arrivals)"

section \<open>VideoSource: the volume is clamped\<close>

lemma clamp_range: "\<not> max 0 (min 1 (v::real)) < 0 \<and> \<not> 1 < max 0 (min 1 v)"
  by (simp add: max_def min_def)

lemma set_el_volume_clamped:
  "set_el_volume (max 0 (min 1 v)) el = Inr (el\<lparr>el_volume := max 0 (min 1 v)\<rparr>)"
  using clamp_range [of v] by (simp add: set_el_volume_def)

lemma VideoSource_setVolume_eq:
  "VideoSource_setVolume v ms =
     Inr (ms\<lparr>videoElement :=
               map_option (\<lambda>el. el\<lparr>el_volume := max 0 (min 1 v)\<rparr>) (videoElement ms)\<rparr>)"
  by (cases "videoElement ms") (simp_all add: VideoSource_setVolume_def set_el_volume_clamped)

text \<open>
  C10.  For every real \<open>v\<close>, also outside the range 0 to 1, \<open>setVolume(v)\<close> of a source
  with a video element gives the element the volume \<open>max(0, min(1, v))\<close> and does not
  throw: the element's setter is called inside its range, so its \<open>IndexSizeError\<close>
  branch is not reached.  Without a video element the call changes nothing.
\<close>

theorem VideoSource_setVolume_clamps:
  "(videoElement vs = None \<longrightarrow> VideoSource_setVolume v vs = Inr vs) \<and>
   (\<forall>el. videoElement vs = Some el \<longrightarrow>
      set_el_volume (max 0 (min 1 v)) el = Inr (el\<lparr>el_volume := max 0 (min 1 v)\<rparr>) \<and>
      VideoSource_setVolume v vs =
        Inr (vs\<lparr>videoElement := Some (el\<lparr>el_volume := max 0 (min 1 v)\<rparr>)\<rparr>))"
  by (simp add: VideoSource_setVolume_def set_el_volume_clamped)

theorem VideoSource_setVolume_clamps_witness:
  "videoElement exampleSource = Some exampleElement \<and>
   VideoSource_setVolume (17/10) exampleSource =
     Inr (exampleSource\<lparr>videoElement := Some (exampleElement\<lparr>el_volume := 1\<rparr>)\<rparr>) \<and>
   videoElement (newSource Mp4Class (JStr ''a.mp4'')) = None \<and>
   VideoSource_setVolume (-3) (newSource Mp4Class (JStr ''a.mp4'')) =
     Inr (newSource Mp4Class (JStr ''a.mp4''))"
  using VideoSource_setVolume_clamps [of exampleSource "17/10"]
    VideoSource_setVolume_clamps [of "newSource Mp4Class (JStr ''a.mp4'')" "-3"]
  by (simp add: exampleSource_def newSource_def)

section \<open>PlayerInstance: volume and mute\<close>

lemma PlayerInstance_setVolume_eq:
  "mediaSource inst = Some ms \<Longrightarrow>
   PlayerInstance_setVolume v inst =
     Returns (inst\<lparr>mediaSource := Some (ms\<lparr>videoElement :=
                         map_option (\<lambda>el. el\<lparr>el_volume := max 0 (min 1 v)\<rparr>) (videoElement ms)\<rparr>),
                    state := (state inst)\<lparr>volume := v, muted := (v = 0)\<rparr>\<rparr>)"
  by (simp add: PlayerInstance_setVolume_def VideoSource_setVolume_eq)

text \<open>
  C1.  The code diverges from the claim, and from itself.  \<open>toggleMute()\<close> mutes the
  example instance, the flag of the state and the element alike.  \<open>setVolume(0.5)\<close> then
  writes \<open>state.muted = false\<close>, where the claim keeps it true, and leaves the element
  muted: the state says unmuted while no sound is played.  The \<open>volumechange\<close> event that
  the write to the element's volume brings puts the flag of the state back to true
  (\<open>handleVolumeChange\<close> copies the element's).  In the same way \<open>setVolume(0)\<close> on the
  fresh instance sets \<open>state.muted\<close>, as the claim has it, but not the element's flag,
  and the event that follows clears it again.
\<close>

theorem setVolume_muted_flag_diverges:
  "muted (state (final (toggleMute exampleInstance))) = True
   \<and> elementMuted (final (toggleMute exampleInstance)) = Some True
   \<and> muted (state (final (PlayerInstance_setVolume (1/2) (final (toggleMute exampleInstance)))))
       = False
   \<and> elementMuted (final (PlayerInstance_setVolume (1/2) (final (toggleMute exampleInstance))))
       = Some True
   \<and> muted (state (final (volumeChangeEvent
         (final (PlayerInstance_setVolume (1/2) (final (toggleMute exampleInstance)))))))
       = True
   \<and> muted (state (final (PlayerInstance_setVolume 0 exampleInstance))) = True
   \<and> elementMuted (final (PlayerInstance_setVolume 0 exampleInstance)) = Some False
   \<and> muted (state (final (volumeChangeEvent (final (PlayerInstance_setVolume 0 exampleInstance)))))
       = False"
  by (simp add: exampleInstance_def exampleSource_def exampleElement_def initialState_def
      PlayerInstance_setVolume_def toggleMute_def VideoSource_setVolume_def setMuted_def
      set_el_volume_def volumeChangeEvent_def handleVolumeChange_def elementMuted_def Let_def)

section \<open>PlayerInstance: what writes the playing flag, and the media source\<close>

lemmas method_defs =
  PlayerInstance_play_def PlayerInstance_pause_def PlayerInstance_seek_def
  PlayerInstance_setVolume_def toggleMute_def PlayerInstance_setPlaybackRate_def
  PlayerInstance_setQuality_def toggleFullscreen_def togglePictureInPicture_def
  handlePlay_def handlePause_def
  handleEnded_def handleTimeUpdate_def handleVolumeChange_def handleSeeking_def
  handleSeeked_def loadVideo_def

lemmas source_defs =
  VideoSource_play_def VideoSource_pause_def VideoSource_seek_def VideoSource_setVolume_eq
  setMuted_def VideoSource_setPlaybackRate_def loadUrl_def

lemma step_sourceShape: "sourceShape (final (step a inst)) = sourceShape inst"
  by (cases a; cases "mediaSource inst")
     (auto simp: sourceShape_def method_defs source_defs Let_def split: option.splits)

lemma step_hasSource: "hasSource (final (step a inst)) = hasSource inst"
  using step_sourceShape [of a inst]
  by (cases "mediaSource inst"; cases "mediaSource (final (step a inst))")
     (simp_all add: sourceShape_def hasSource_def)

lemma step_hasElement: "hasElement (final (step a inst)) = hasElement inst"
  using step_sourceShape [of a inst]
  by (cases "mediaSource inst"; cases "mediaSource (final (step a inst))")
     (simp_all add: sourceShape_def hasElement_def)

lemma step_playing:
  "playing (state (final (step a inst))) =
     (case playingWrite (hasSource inst) (hasElement inst) a of
        None \<Rightarrow> playing (state inst)
      | Some b \<Rightarrow> b)"
  by (cases a; cases "mediaSource inst")
     (auto simp: hasSource_def hasElement_def method_defs source_defs Let_def
           split: option.splits)

lemma lastPlayingWrite_events_only:
  "list_all (\<lambda>a. \<not> directWrite a) tr \<Longrightarrow>
   lastPlayingWrite src el tr = map_option (\<lambda>e. e = MediaPlay) (lastMediaEvent tr)"
proof (induction tr)
  case Nil
  then show ?case by simp
next
  case (Cons a tr)
  then show ?case by (cases a) (auto split: option.splits)
qed

lemma run_sourceShape: "sourceShape (run tr inst) = sourceShape inst"
  by (induction tr arbitrary: inst) (simp_all add: step_sourceShape)

text \<open>
  C2 as stated fails: \<open>pause()\<close> after a play event leaves \<open>playing\<close> false although
  the most recent media event is \<open>play\<close>, and \<open>play()\<close> sets it with no media event at
  all; both methods write the flag themselves.
\<close>

theorem playing_direct_write_counterexample:
  "lastMediaEvent [MediaPlay, CallPause] = Some MediaPlay \<and>
   playing (state (run [MediaPlay, CallPause] exampleInstance)) = False \<and>
   lastMediaEvent [CallPlay True] = None \<and>
   playing (state (run [CallPlay True] exampleInstance)) = True \<and>
   playing (state (final (PlayerInstance_pause (final (handlePlay exampleInstance))))) \<noteq>
     playing (state (final (handlePlay exampleInstance)))"
  by (simp add: exampleInstance_def exampleSource_def initialState_def method_defs source_defs)

text \<open>
  C2, amended.  After any history of media events and method calls, \<open>state.playing\<close> is
  what the most recent write left: true after a play event or a \<open>play()\<close> that the
  source and the platform let succeed, false after a pause or ended event or a \<open>pause()\<close>
  on an instance with a media source.  \<open>play()\<close> and \<open>pause()\<close> write the flag
  themselves, without waiting for the event of the media source.  In a history without
  calls of \<open>play()\<close> and \<open>pause()\<close> the flag is true exactly when the most recent of the
  play, pause and ended events was play.
\<close>

theorem playing_is_last_write:
  "playing (state (run tr inst)) =
     (case lastPlayingWrite (hasSource inst) (hasElement inst) tr of
        None \<Rightarrow> playing (state inst)
      | Some b \<Rightarrow> b)
   \<and> (list_all (\<lambda>a. \<not> directWrite a) tr \<longrightarrow>
        playing (state (run tr inst)) =
          (case lastMediaEvent tr of None \<Rightarrow> playing (state inst) | Some e \<Rightarrow> e = MediaPlay))
   \<and> (hasSource inst \<longrightarrow> playing (state (final (PlayerInstance_pause inst))) = False)
   \<and> (hasElement inst \<longrightarrow> playing (state (final (PlayerInstance_play True inst))) = True)"
proof (intro conjI impI)
  have step: "playing (state (final (step a i))) =
     (case playingWrite (hasSource i) (hasElement i) a of
        None \<Rightarrow> playing (state i) | Some b \<Rightarrow> b)" for a i
    by (rule step_playing)
  show run: "playing (state (run tr inst)) =
     (case lastPlayingWrite (hasSource inst) (hasElement inst) tr of
        None \<Rightarrow> playing (state inst)
      | Some b \<Rightarrow> b)"
  proof (induction tr arbitrary: inst)
    case Nil
    then show ?case by simp
  next
    case (Cons a tr)
    show ?case
      using Cons.IH [of "final (step a inst)"]
      by (simp add: step_hasSource step_hasElement step split: option.splits)
  qed
  show "playing (state (run tr inst)) =
          (case lastMediaEvent tr of None \<Rightarrow> playing (state inst) | Some e \<Rightarrow> e = MediaPlay)"
    if "list_all (\<lambda>a. \<not> directWrite a) tr"
    using run lastPlayingWrite_events_only [OF that, of "hasSource inst" "hasElement inst"]
    by (simp split: option.splits)
  show "playing (state (final (PlayerInstance_pause inst))) = False" if "hasSource inst"
    using that step [of CallPause inst] by simp
  show "playing (state (final (PlayerInstance_play True inst))) = True" if "hasElement inst"
    using that step [of "CallPlay True" inst]
    by (auto simp: hasElement_def hasSource_def split: option.splits)
qed

theorem playing_is_last_write_witness:
  "hasSource exampleInstance \<and> hasElement exampleInstance \<and>
   playing (state (run [MediaPlay, CallPause, MediaSeeking, CallPlay True] exampleInstance)) = True \<and>
   playing (state (run [CallPlay True, MediaEnded, CallSetVolume 0] exampleInstance)) = False \<and>
   list_all (\<lambda>a. \<not> directWrite a) [MediaPause, MediaPlay, MediaTimeUpdate 1 9] \<and>
   playing (state (run [MediaPause, MediaPlay, MediaTimeUpdate 1 9] exampleInstance)) = True \<and>
   playing (state (final (PlayerInstance_pause exampleInstance))) = False \<and>
   playing (state (final (PlayerInstance_play True exampleInstance))) = True"
proof -
  have h: "hasSource exampleInstance" "hasElement exampleInstance"
    by (simp_all add: hasSource_def hasElement_def exampleInstance_def exampleSource_def)
  show ?thesis
    using h playing_is_last_write [of "[MediaPlay, CallPause, MediaSeeking, CallPlay True]" exampleInstance]
      playing_is_last_write [of "[CallPlay True, MediaEnded, CallSetVolume 0]" exampleInstance]
      playing_is_last_write [of "[MediaPause, MediaPlay, MediaTimeUpdate 1 9]" exampleInstance]
    by simp
qed

text \<open>
  C8 as stated fails: \<open>loadVideo\<close> does not destroy and recreate the media source, it
  keeps the loaded source and changes its URL; and an instance whose configuration asks
  for a media type that is not registered has no media source at all.
\<close>

theorem loadVideo_reuses_source_counterexample:
  "loadVideo (JStr ''b.mp4'') exampleInstance \<noteq>
     recreateMediaSource sourceTypes (JStr ''b.mp4'') exampleInstance \<and>
   loadVideo (JStr ''b.mp4'') exampleInstance =
     Returns (exampleInstance\<lparr>mediaSource := Some
       \<lparr>kind = Mp4Class, url = JStr ''b.mp4'',
        videoElement = Some (exampleElement\<lparr>el_src := JStr ''b.mp4''\<rparr>), isLoaded = True\<rparr>\<rparr>) \<and>
   map_sum id (\<lambda>cfg. mediaSource (newPlayerInstance sourceTypes ''up_2'' (JObj []) cfg))
     (createConfig (JObj [(''mediaType'', JStr ''flash'')])) = Inr None"
  by (simp add: exampleInstance_def exampleSource_def initialState_def method_defs source_defs
     recreateMediaSource_def createMediaSource_def detectMediaType_def get_def
     toLowerCase_def lowerChar_def sourceTypes_def newSource_def VideoSource_destroy_def
     newPlayerInstance_def createConfig_def deepMerge_def defaultConfig_def)

text \<open>
  C8, amended.  Every instance has one playback state (the field \<open>state\<close>) and at most
  one media source, and no event or method call of a live instance creates, drops or
  destroys it: whether there is a source, its class, its loaded flag and whether its
  element is attached stay as they are along every history.  \<open>loadVideo(url)\<close>, also
  when \<open>handleEnded\<close> calls it for the configured next video, keeps the media source and
  only sets its \<open>url\<close> and the \<open>src\<close> of its video element.
\<close>

theorem mediaSource_kept:
  "sourceShape (run tr inst) = sourceShape inst
   \<and> (mediaSource inst = Some ms \<longrightarrow>
        loadVideo u inst =
          Returns (inst\<lparr>mediaSource := Some (ms\<lparr>url := u,
                     videoElement := map_option (\<lambda>el. el\<lparr>el_src := u\<rparr>) (videoElement ms)\<rparr>)\<rparr>))
   \<and> (mediaSource inst = Some ms \<and> truthy (get (config inst) ''nextVideo'')
        \<and> truthy (get (props (get (config inst) ''nextVideo'')) ''url'') \<longrightarrow>
        mediaSource (final (handleEnded inst)) =
          Some (ms\<lparr>url := get (props (get (config inst) ''nextVideo'')) ''url'',
                 videoElement := map_option
                   (\<lambda>el. el\<lparr>el_src := get (props (get (config inst) ''nextVideo'')) ''url''\<rparr>)
                   (videoElement ms)\<rparr>))"
proof (intro conjI impI)
  show "sourceShape (run tr inst) = sourceShape inst" by (rule run_sourceShape)
next
  assume "mediaSource inst = Some ms"
  then show "loadVideo u inst =
          Returns (inst\<lparr>mediaSource := Some (ms\<lparr>url := u,
                     videoElement := map_option (\<lambda>el. el\<lparr>el_src := u\<rparr>) (videoElement ms)\<rparr>)\<rparr>)"
    by (cases "videoElement ms") (simp_all add: loadVideo_def loadUrl_def)
next
  assume "mediaSource inst = Some ms \<and> truthy (get (config inst) ''nextVideo'')
        \<and> truthy (get (props (get (config inst) ''nextVideo'')) ''url'')"
  then show "mediaSource (final (handleEnded inst)) =
          Some (ms\<lparr>url := get (props (get (config inst) ''nextVideo'')) ''url'',
                 videoElement := map_option
                   (\<lambda>el. el\<lparr>el_src := get (props (get (config inst) ''nextVideo'')) ''url''\<rparr>)
                   (videoElement ms)\<rparr>)"
    by (cases "videoElement ms") (simp_all add: handleEnded_def loadVideo_def loadUrl_def Let_def)
qed

theorem mediaSource_kept_witness:
  "mediaSource exampleInstance = Some exampleSource \<and>
   sourceShape (run [MediaPlay, CallLoadVideo (JStr ''b.mp4''), MediaEnded] exampleInstance) =
     Some (Mp4Class, True, True) \<and>
   loadVideo (JStr ''b.mp4'') exampleInstance =
     Returns (exampleInstance\<lparr>mediaSource := Some (exampleSource\<lparr>url := JStr ''b.mp4'',
                videoElement := Some (exampleElement\<lparr>el_src := JStr ''b.mp4''\<rparr>)\<rparr>)\<rparr>) \<and>
   truthy (get (config (exampleInstance\<lparr>config := [(''nextVideo'', JObj [(''url'', JStr ''c.mp4'')])]\<rparr>))
             ''nextVideo'') \<and>
   mediaSource (final (handleEnded
       (exampleInstance\<lparr>config := [(''nextVideo'', JObj [(''url'', JStr ''c.mp4'')])]\<rparr>))) =
     Some (exampleSource\<lparr>url := JStr ''c.mp4'',
             videoElement := Some (exampleElement\<lparr>el_src := JStr ''c.mp4''\<rparr>)\<rparr>)"
  using mediaSource_kept [of "[MediaPlay, CallLoadVideo (JStr ''b.mp4''), MediaEnded]"
          exampleInstance exampleSource "JStr ''b.mp4''"]
    mediaSource_kept [of "[]" "exampleInstance\<lparr>config := [(''nextVideo'', JObj [(''url'', JStr ''c.mp4'')])]\<rparr>"
          exampleSource JUndef]
  by (simp add: exampleInstance_def exampleSource_def sourceShape_def get_def)

section \<open>MediaFactory: the detection order\<close>

lemma char_eq_char_of: "(c = char_of (n::nat)) = (of_char c = take_bit 8 n)"
  using char_of_eq_iff [of n c] by auto

lemma lowerChar_char_of:
  "lowerChar c =
     (if 65 \<le> (of_char c :: nat) \<and> (of_char c :: nat) \<le> 90
      then char_of (of_char c + (32::nat)) else c)"
proof (cases c)
  case (Char b0 b1 b2 b3 b4 b5 b6 b7)
  show ?thesis
    unfolding lowerChar_def Char
    by (cases b0; cases b1; cases b2; cases b3; cases b4; cases b5; cases b6; cases b7)
       (simp_all add: char_eq_char_of)
qed

lemma js_includes_sublist: "js_includes s pat = sublist pat s"
  by (induction s) (auto simp: sublist_Cons_right)

lemma prefix_qm: "prefix (e @ ''?'') cs = (\<exists>r. cs = e @ CHR ''?'' # r)"
  by (auto simp: prefix_def)

lemma matchExt_hasExtension: "matchExt exts s = hasExtension exts s"
proof (induction s)
  case Nil
  then show ?case by (simp add: hasExtension_def)
next
  case (Cons c cs)
  have "hasExtension exts (c # cs) =
          ((c = CHR ''.'' \<and> (\<exists>e\<in>set exts. cs = e \<or> (\<exists>r. cs = e @ CHR ''?'' # r)))
           \<or> hasExtension exts cs)"
    (is "?L = (?A \<or> ?B)")
  proof
    assume ?L
    then obtain pre e post where e: "e \<in> set exts" and s: "c # cs = pre @ ''.'' @ e @ post"
      and p: "post = [] \<or> (\<exists>r. post = CHR ''?'' # r)"
      unfolding hasExtension_def by blast
    show "?A \<or> ?B"
    proof (cases pre)
      case Nil
      then have "c = CHR ''.''" and "cs = e @ post" using s by simp_all
      then show ?thesis using e p by auto
    next
      case (Cons a pre')
      then have "cs = pre' @ ''.'' @ e @ post" using s by simp
      then show ?thesis using e p unfolding hasExtension_def by blast
    qed
  next
    assume "?A \<or> ?B"
    then show ?L
    proof
      assume ?A
      then obtain e where e: "e \<in> set exts" and c: "c = CHR ''.''"
        and cs: "cs = e \<or> (\<exists>r. cs = e @ CHR ''?'' # r)" by blast
      from cs obtain post where "cs = e @ post" and "post = [] \<or> (\<exists>r. post = CHR ''?'' # r)"
        by auto
      then have "c # cs = [] @ ''.'' @ e @ post" using c by simp
      then show ?L using e \<open>post = [] \<or> (\<exists>r. post = CHR ''?'' # r)\<close>
        unfolding hasExtension_def by blast
    next
      assume ?B
      then obtain pre e post where e: "e \<in> set exts" and s: "cs = pre @ ''.'' @ e @ post"
        and p: "post = [] \<or> (\<exists>r. post = CHR ''?'' # r)"
        unfolding hasExtension_def by blast
      have "c # cs = (c # pre) @ ''.'' @ e @ post" using s by simp
      then show ?L using e p unfolding hasExtension_def by blast
    qed
  qed
  then show ?case using Cons.IH by (simp add: list_ex_iff prefix_qm)
qed

lemma detectMediaType_eq:
  "detectMediaType (JStr u) cfg =
     Inr (if truthy (get cfg ''priority'') then get cfg ''priority''
          else if sublist ''.m3u8'' (toLowerCase u) \<or> sublist ''hls'' (toLowerCase u)
            then JStr ''hls''
          else if sublist ''.mpd'' (toLowerCase u) \<or> sublist ''dash'' (toLowerCase u)
            then JStr ''dash''
          else if hasExtension [''mp3'', ''wav'', ''aac'', ''ogg''] (toLowerCase u)
            then JStr ''audio''
          else JStr ''video'')"
  by (simp add: detectMediaType_def js_includes_sublist matchExt_hasExtension Let_def)

lemma createMediaSource_type:
  "truthy type \<Longrightarrow>
   createMediaSource types u type cfg =
     (case sourceClassOf types type of
        None \<Rightarrow> Inl (UnsupportedMediaType type)
      | Some cls \<Rightarrow> Inr (newSource cls u))"
  by (simp add: createMediaSource_def)

text \<open>
  C3 as stated fails: a URL with a video or audio extension and without \<open>.m3u8\<close> or
  \<open>.mpd\<close> is still detected as \<open>hls\<close> or \<open>dash\<close> when the text \<open>hls\<close> or \<open>dash\<close>
  occurs anywhere in it.
\<close>

theorem detectMediaType_substring_counterexample:
  "\<not> js_includes (toLowerCase ''hls.mp4'') ''.m3u8'' \<and>
   \<not> js_includes (toLowerCase ''hls.mp4'') ''.mpd'' \<and>
   matchExt [''mp4'', ''webm'', ''flv'', ''avi'', ''mov''] (toLowerCase ''hls.mp4'') \<and>
   detectMediaType (JStr ''hls.mp4'') [] = Inr (JStr ''hls'') \<and>
   matchExt [''mp3'', ''wav'', ''aac'', ''ogg''] (toLowerCase ''dashboard.mp3'') \<and>
   detectMediaType (JStr ''dashboard.mp3'') [] = Inr (JStr ''dash'')"
  by (simp add: detectMediaType_def get_def toLowerCase_def lowerChar_def)

text \<open>
  C3, amended.  For every string URL and every configuration object \<open>detectMediaType\<close>
  returns a value, in this order: a truthy \<open>config.priority\<close> is returned as it is;
  otherwise the lower-cased URL is \<open>hls\<close> when it contains \<open>.m3u8\<close> or \<open>hls\<close>, else
  \<open>dash\<close> when it contains \<open>.mpd\<close> or \<open>dash\<close>, else \<open>audio\<close> when it has one of the
  extensions mp3, wav, aac, ogg followed by \<open>?\<close> or the end, else \<open>video\<close>.  An explicit
  truthy \<open>type\<close> takes the place of the detection in \<open>createMediaSource\<close>.  With no
  priority, \<open>a.m3u8\<close> is \<open>hls\<close>, \<open>a.mp4\<close> is \<open>video\<close>, \<open>a.mp3\<close> is \<open>audio\<close> and
  \<open>a.mpd\<close> is \<open>dash\<close>.
\<close>

theorem detectMediaType_order:
  "detectMediaType (JStr u) cfg =
     Inr (if truthy (get cfg ''priority'') then get cfg ''priority''
          else if sublist ''.m3u8'' (toLowerCase u) \<or> sublist ''hls'' (toLowerCase u)
            then JStr ''hls''
          else if sublist ''.mpd'' (toLowerCase u) \<or> sublist ''dash'' (toLowerCase u)
            then JStr ''dash''
          else if hasExtension [''mp3'', ''wav'', ''aac'', ''ogg''] (toLowerCase u)
            then JStr ''audio''
          else JStr ''video'')
   \<and> (truthy type \<longrightarrow>
        createMediaSource types v type cfg =
          (case sourceClassOf types type of
             None \<Rightarrow> Inl (UnsupportedMediaType type)
           | Some cls \<Rightarrow> Inr (newSource cls v)))
   \<and> detectMediaType (JStr ''a.m3u8'') [] = Inr (JStr ''hls'')
   \<and> detectMediaType (JStr ''a.mp4'') [] = Inr (JStr ''video'')
   \<and> detectMediaType (JStr ''a.mp3'') [] = Inr (JStr ''audio'')
   \<and> detectMediaType (JStr ''a.mpd'') [] = Inr (JStr ''dash'')"
proof (intro conjI impI)
  show "detectMediaType (JStr u) cfg =
     Inr (if truthy (get cfg ''priority'') then get cfg ''priority''
          else if sublist ''.m3u8'' (toLowerCase u) \<or> sublist ''hls'' (toLowerCase u)
            then JStr ''hls''
          else if sublist ''.mpd'' (toLowerCase u) \<or> sublist ''dash'' (toLowerCase u)
            then JStr ''dash''
          else if hasExtension [''mp3'', ''wav'', ''aac'', ''ogg''] (toLowerCase u)
            then JStr ''audio''
          else JStr ''video'')"
    by (rule detectMediaType_eq)
next
  assume "truthy type"
  then show "createMediaSource types v type cfg =
          (case sourceClassOf types type of
             None \<Rightarrow> Inl (UnsupportedMediaType type)
           | Some cls \<Rightarrow> Inr (newSource cls v))"
    by (rule createMediaSource_type)
qed (simp_all add: detectMediaType_def get_def toLowerCase_def lowerChar_def)

theorem detectMediaType_order_witness:
  "truthy (JStr ''mp4'') \<and>
   createMediaSource sourceTypes (JStr ''a.m3u8'') (JStr ''mp4'') [(''priority'', JStr [])] =
     Inr (newSource Mp4Class (JStr ''a.m3u8'')) \<and>
   detectMediaType (JStr ''Clip.OGG?t=1'') [(''priority'', JStr [])] = Inr (JStr ''audio'')"
proof -
  have a: "toLowerCase ''Clip.OGG?t=1'' = ''clip.ogg?t=1''"
    by (simp add: toLowerCase_def lowerChar_def)
  have b: "\<not> js_includes ''clip.ogg?t=1'' ''.m3u8''" "\<not> js_includes ''clip.ogg?t=1'' ''hls''"
    "\<not> js_includes ''clip.ogg?t=1'' ''.mpd''" "\<not> js_includes ''clip.ogg?t=1'' ''dash''"
    "matchExt [''mp3'', ''wav'', ''aac'', ''ogg''] ''clip.ogg?t=1''"
    by simp_all
  have p: "get [(''priority'', JStr [])] ''priority'' = JStr []"
    by (simp add: get_def)
  have s: "map_of sourceTypes ''mp4'' = Some Mp4Class"
    by (simp add: sourceTypes_def)
  show ?thesis
    using detectMediaType_order [of "''Clip.OGG?t=1''" "[(''priority'', JStr [])]"
            "JStr ''mp4''" sourceTypes "JStr ''a.m3u8''"]
      b [unfolded js_includes_sublist matchExt_hasExtension]
    by (simp add: a p s)
qed

section \<open>ConfigManager: merging the user's options over the defaults\<close>

lemma mergeLoop_mergeProps:
  "list_all (\<lambda>p. mergeable (snd p)) s \<Longrightarrow> mergeLoop False t s = Inr (mergeProps t s)"
proof (induction t s rule: mergeProps.induct)
  case (1 result)
  then show ?case by simp
next
  case (2 result key v rest)
  have ev: "mergeable v" and er: "list_all (\<lambda>p. mergeable (snd p)) rest"
    using "2.prems" by simp_all
  show ?case
  proof (cases "isObject v \<and> isObject (get result key)")
    case True
    have nt: "\<not> hasOwnPropertyThrows v" and ep: "list_all (\<lambda>p. mergeable (snd p)) (props v)"
      using ev True by (cases v; simp)+
    show ?thesis
      using True nt "2.IH"(1) [OF True ep] "2.IH"(2) [OF er] by simp
  next
    case False
    then show ?thesis
      using "2.IH"(2) [OF er] by auto
  qed
qed

lemma deepMerge_mergeProps:
  "isObject source \<Longrightarrow> mergeable source \<Longrightarrow>
   deepMerge target source = Inr (mergeProps (props target) (props source))"
  unfolding deepMerge_def
  by (cases source) (simp_all add: mergeLoop_mergeProps)

lemma map_of_mergeProps:
  "distinct (map fst s) \<Longrightarrow>
   map_of (mergeProps t s) k =
     (case map_of s k of
        None \<Rightarrow> map_of t k
      | Some v \<Rightarrow> Some (if isObject v \<and> isObject (get t k)
                        then JObj (mergeProps (props (get t k)) (props v)) else v))"
proof (induction t s rule: mergeProps.induct)
  case (1 result)
  then show ?case by simp
next
  case (2 result key v rest)
  have d: "distinct (map fst rest)" and nk: "key \<notin> fst ` set rest"
    using "2.prems" by auto
  have none: "map_of rest key = None"
    using nk by (simp add: map_of_eq_None_iff)
  show ?case
  proof (cases "k = key")
    case True
    then show ?thesis
      using "2.IH"(2)[OF d] none by (simp add: update_conv')
  next
    case False
    then show ?thesis
      using "2.IH"(2)[OF d] by (simp add: update_conv' get_def split: option.splits)
  qed
qed

lemma absentFrom_lookup: "absentFrom v p \<Longrightarrow> lookup v p = None"
  by (induction v p rule: absentFrom.induct) (auto split: option.splits)

lemma lookup_nonobj: "\<not> isObject v \<Longrightarrow> ks \<noteq> [] \<Longrightarrow> lookup v ks = None"
  by (cases ks) auto

lemma lookup_props: "isObject x \<Longrightarrow> ks \<noteq> [] \<Longrightarrow> lookup (JObj (props x)) ks = lookup x ks"
  by (cases ks) auto

lemma wf_fields: "isObject v \<Longrightarrow> wellFormed v \<Longrightarrow> distinct (map fst (props v))"
  by (cases v) auto

lemma wf_map_of:
  "isObject u \<Longrightarrow> wellFormed u \<Longrightarrow> map_of (props u) k = Some v \<Longrightarrow> wellFormed v"
  by (cases u) (auto simp: list_all_iff dest!: map_of_SomeD)

lemma lookup_present:
  "isObject u \<Longrightarrow> wellFormed u \<Longrightarrow> lookup u p = Some v \<Longrightarrow> \<not> isObject v \<Longrightarrow>
   lookup (JObj (mergeProps t (props u))) p = Some v"
proof (induction p arbitrary: u t)
  case Nil
  then show ?case by auto
next
  case (Cons k ks)
  from Cons.prems(1,3) obtain w where w: "map_of (props u) k = Some w" and lw: "lookup w ks = Some v"
    by (auto split: option.splits)
  have wfw: "wellFormed w" using wf_map_of[OF Cons.prems(1,2) w] .
  have ds: "distinct (map fst (props u))" using wf_fields[OF Cons.prems(1,2)] .
  show ?case
  proof (cases "isObject w \<and> isObject (get t k)")
    case True
    have "lookup (JObj (mergeProps (props (get t k)) (props w))) ks = Some v"
      using Cons.IH[of w "props (get t k)"] True wfw lw Cons.prems(4) by simp
    then show ?thesis
      using True w by (simp add: map_of_mergeProps[OF ds])
  next
    case False
    then show ?thesis
      using w lw by (auto simp: map_of_mergeProps[OF ds])
  qed
qed

lemma lookup_absent:
  "wellFormed u \<Longrightarrow> absentFrom u p \<Longrightarrow>
   lookup (JObj (mergeProps t (props u))) p = lookup (JObj t) p"
proof (induction p arbitrary: u t)
  case Nil
  then show ?case by simp
next
  case (Cons k ks)
  have ou: "isObject u" using Cons.prems(2) by simp
  have ds: "distinct (map fst (props u))" using wf_fields[OF ou Cons.prems(1)] .
  show ?case
  proof (cases "map_of (props u) k")
    case None
    then show ?thesis by (simp add: map_of_mergeProps[OF ds])
  next
    case (Some w)
    have wfw: "wellFormed w" using wf_map_of[OF ou Cons.prems(1) Some] .
    have aw: "absentFrom w ks" using Cons.prems(2) Some by simp
    have ow: "isObject w" and ne: "ks \<noteq> []" using aw by (cases ks; simp)+
    show ?thesis
    proof (cases "isObject (get t k)")
      case True
      then have mt: "map_of t k = Some (get t k)"
        by (auto simp: get_def split: option.splits)
      have "lookup (JObj (mergeProps (props (get t k)) (props w))) ks
              = lookup (JObj (props (get t k))) ks"
        using Cons.IH[of w "props (get t k)"] wfw aw by simp
      also have "\<dots> = lookup (get t k) ks"
        using lookup_props[OF True ne] .
      finally show ?thesis
        using Some ow True mt by (simp add: map_of_mergeProps[OF ds])
    next
      case False
      have l1: "lookup w ks = None" using absentFrom_lookup[OF aw] .
      have l2: "lookup (JObj t) (k # ks) = None"
        using False ne lookup_nonobj[of _ ks] by (auto simp: get_def split: option.splits)
      show ?thesis
        using Some False l1 l2 by (simp add: map_of_mergeProps[OF ds])
    qed
  qed
qed

lemma mergeProps_same_aux:
  "distinct (map fst s) \<Longrightarrow>
   (\<forall>(k, v) \<in> set s. map_of r k = Some v \<and>
      (isObject v \<longrightarrow> JObj (mergeProps (props v) (props v)) = v)) \<Longrightarrow>
   mergeProps r s = r"
proof (induction s arbitrary: r)
  case Nil
  then show ?case by simp
next
  case (Cons a s)
  obtain k v where a: "a = (k, v)" by (cases a)
  have m: "map_of r k = Some v" and i: "isObject v \<longrightarrow> JObj (mergeProps (props v) (props v)) = v"
    using Cons.prems(2) a by auto
  have g: "get r k = v" using m by (simp add: get_def)
  have u: "AList.update k (if isObject v \<and> isObject (get r k)
           then JObj (mergeProps (props (get r k)) (props v)) else v) r = r"
    using i g m by (simp add: update_triv)
  show ?case
    using Cons.IH[of r] Cons.prems a u by auto
qed

lemma mergeProps_same:
  "wellFormed v \<Longrightarrow> literal v \<Longrightarrow> isObject v \<Longrightarrow> JObj (mergeProps (props v) (props v)) = v"
proof (induction v rule: literal.induct)
  case (1 xs)
  have d: "distinct (map fst xs)" using 1(2) by simp
  have "\<forall>(k, w) \<in> set xs. map_of xs k = Some w \<and>
          (isObject w \<longrightarrow> JObj (mergeProps (props w) (props w)) = w)"
  proof (clarify, intro conjI impI)
    fix k w assume kw: "(k, w) \<in> set xs"
    show "map_of xs k = Some w" using d kw by simp
    assume ow: "isObject w"
    have "wellFormed w" "literal w" using 1(2,3) kw by (auto simp: list_all_iff)
    then show "JObj (mergeProps (props w) (props w)) = w"
      using 1(1)[of "(k, w)"] kw ow by simp
  qed
  then show ?case using mergeProps_same_aux[OF d] by simp
qed simp_all

lemma defaultConfig_shape:
  "wellFormed (JObj defaultConfig)" "literal (JObj defaultConfig)" "mergeable (JObj defaultConfig)"
  by (simp_all add: defaultConfig_def)

lemma createConfig_mergeProps:
  "isObject user \<Longrightarrow> mergeable user \<Longrightarrow>
   createConfig user = Inr (mergeProps defaultConfig (props user))"
  unfolding createConfig_def
  by (cases user) (simp_all add: deepMerge_mergeProps)

text \<open>
  C5 as stated fails.  With the user configuration \<open>{nextVideo: null}\<close>, which
  \<open>handleEnded\<close> provides for by testing \<open>config.nextVideo\<close>, the key path
  \<open>nextVideo.countdown\<close> is absent from the user's object, yet the merged configuration
  does not keep the default 10 there, because \<open>nextVideo\<close> itself was replaced by
  \<open>null\<close>.  And for a user object that has a property named \<open>hasOwnProperty\<close> of its
  own, \<open>createConfig\<close> returns no object: the call \<open>source.hasOwnProperty(key)\<close> is a
  \<open>TypeError\<close>.
\<close>

theorem createConfig_shadowed_path_counterexample:
  "lookup (JObj [(''nextVideo'', JNull)]) [''nextVideo'', ''countdown''] = None \<and>
   lookup (JObj defaultConfig) [''nextVideo'', ''countdown''] = Some (jnum 10) \<and>
   map_sum id (\<lambda>merged. lookup (JObj merged) [''nextVideo'', ''countdown''])
     (createConfig (JObj [(''nextVideo'', JNull)])) = Inr None \<and>
   createConfig (JObj [(''hasOwnProperty'', JBool True)]) = Inl TypeError"
proof -
  have "map_of (mergeProps defaultConfig [(''nextVideo'', JNull)]) ''nextVideo'' = Some JNull"
    by (simp add: update_conv')
  then have "map_sum id (\<lambda>merged. lookup (JObj merged) [''nextVideo'', ''countdown''])
     (createConfig (JObj [(''nextVideo'', JNull)])) = Inr None"
    by (simp add: createConfig_mergeProps)
  moreover have "createConfig (JObj [(''hasOwnProperty'', JBool True)]) = Inl TypeError"
    by (simp add: createConfig_def deepMerge_def)
  ultimately show ?thesis by (simp add: defaultConfig_def)
qed

text \<open>
  C5, amended.  Let \<open>user\<close> be a configuration object whose objects have distinct keys,
  none of them \<open>__proto__\<close>, and can call \<open>hasOwnProperty\<close> (they inherit it and have no
  property of that name).  Then \<open>createConfig(user)\<close> returns an object.  At every key
  path where \<open>user\<close> holds a value that \<open>isObject\<close> rejects (a primitive, \<open>null\<close>, an
  array) the object holds that value; at every key path that \<open>user\<close> lacks, while every
  value of \<open>user\<close> on the way to it passes \<open>isObject\<close>, it holds the value of the
  defaults (or nothing, when the defaults have nothing there).  Merging the default
  configuration with itself gives the default configuration.
\<close>

theorem createConfig_overrides_and_retains:
  assumes "isObject user" and "wellFormed user" and "mergeable user"
  shows "(\<exists>merged. createConfig user = Inr merged
            \<and> (\<forall>p v. lookup user p = Some v \<and> \<not> isObject v \<longrightarrow>
                  lookup (JObj merged) p = Some v)
            \<and> (\<forall>p. absentFrom user p \<longrightarrow>
                  lookup (JObj merged) p = lookup (JObj defaultConfig) p))
       \<and> deepMerge (JObj defaultConfig) (JObj defaultConfig) = Inr defaultConfig"
proof (intro conjI exI allI impI)
  show "createConfig user = Inr (mergeProps defaultConfig (props user))"
    using createConfig_mergeProps [OF assms(1,3)] .
next
  fix p v
  assume "lookup user p = Some v \<and> \<not> isObject v"
  then show "lookup (JObj (mergeProps defaultConfig (props user))) p = Some v"
    using lookup_present [OF assms(1,2)] by simp
next
  fix p
  assume "absentFrom user p"
  then show "lookup (JObj (mergeProps defaultConfig (props user))) p = lookup (JObj defaultConfig) p"
    using lookup_absent [OF assms(2)] by simp
next
  show "deepMerge (JObj defaultConfig) (JObj defaultConfig) = Inr defaultConfig"
    using mergeProps_same [OF defaultConfig_shape(1,2)] deepMerge_mergeProps [OF _ defaultConfig_shape(3)]
    by simp
qed

theorem createConfig_overrides_and_retains_witness:
  "isObject (JObj [(''videoUrl'', JStr ''clip.mp4''),
                   (''features'', JOther True [(''speed'', JBool False)])]) \<and>
   wellFormed (JObj [(''videoUrl'', JStr ''clip.mp4''),
                     (''features'', JOther True [(''speed'', JBool False)])]) \<and>
   mergeable (JObj [(''videoUrl'', JStr ''clip.mp4''),
                     (''features'', JOther True [(''speed'', JBool False)])]) \<and>
   lookup (JObj [(''videoUrl'', JStr ''clip.mp4''),
                 (''features'', JOther True [(''speed'', JBool False)])])
     [''features'', ''speed''] = Some (JBool False) \<and>
   absentFrom (JObj [(''videoUrl'', JStr ''clip.mp4''),
                     (''features'', JOther True [(''speed'', JBool False)])])
     [''features'', ''pip''] \<and>
   (\<exists>merged.
      createConfig (JObj [(''videoUrl'', JStr ''clip.mp4''),
                          (''features'', JOther True [(''speed'', JBool False)])]) = Inr merged \<and>
      lookup (JObj merged) [''videoUrl''] = Some (JStr ''clip.mp4'') \<and>
      lookup (JObj merged) [''features'', ''speed''] = Some (JBool False) \<and>
      lookup (JObj merged) [''features'', ''pip''] = Some (JBool True))"
proof -
  let ?user = "JObj [(''videoUrl'', JStr ''clip.mp4''),
                     (''features'', JOther True [(''speed'', JBool False)])]"
  have w: "isObject ?user" "wellFormed ?user" "mergeable ?user" by simp_all
  have l: "lookup ?user [''features'', ''speed''] = Some (JBool False)"
    "lookup ?user [''videoUrl''] = Some (JStr ''clip.mp4'')"
    "absentFrom ?user [''features'', ''pip'']"
    by simp_all
  have d: "lookup (JObj defaultConfig) [''features'', ''pip''] = Some (JBool True)"
    by (simp add: defaultConfig_def)
  from createConfig_overrides_and_retains [OF w]
  obtain merged where m: "createConfig ?user = Inr merged"
    and p: "\<And>p v. lookup ?user p = Some v \<and> \<not> isObject v \<Longrightarrow> lookup (JObj merged) p = Some v"
    and a: "\<And>p. absentFrom ?user p \<Longrightarrow> lookup (JObj merged) p = lookup (JObj defaultConfig) p"
    by blast
  have "lookup (JObj merged) [''videoUrl''] = Some (JStr ''clip.mp4'')"
    using p [of "[''videoUrl'']" "JStr ''clip.mp4''"] l(2) by simp
  moreover have "lookup (JObj merged) [''features'', ''speed''] = Some (JBool False)"
    using p [of "[''features'', ''speed'']" "JBool False"] l(1) by simp
  moreover have "lookup (JObj merged) [''features'', ''pip''] = Some (JBool True)"
    using a [OF l(3)] d by simp
  ultimately show ?thesis using w l(1,3) m by blast
qed

section \<open>ConfigManager and UniversalPlayer: validation\<close>










section \<open>EventManager: which listeners are called\<close>

lemma callAll_append: "callAll (xs @ ys) d w = callAll ys d (callAll xs d w)"
  by (induction xs arbitrary: w) simp_all

lemma thrown_append:
  "thrown (xs @ ys) d w = thrown xs d w + thrown ys d (callAll xs d w)"
  by (induction xs arbitrary: w) simp_all

lemma quiet_append:
  "quiet n (xs @ ys) d w = (quiet n xs d w \<and> quiet n ys d (callAll xs d w))"
  by (induction xs arbitrary: w) auto

lemma subscribers_on:
  "subscribers (on eventName l em) n = (if n = eventName then subscribers em n @ [l] else subscribers em n)"
  "onceSubscribers (on eventName l em) n = onceSubscribers em n"
  by (simp_all add: subscribers_def onceSubscribers_def on_def Let_def)

lemma subscribers_once:
  "onceSubscribers (once eventName l em) n =
     (if n = eventName then onceSubscribers em n @ [l] else onceSubscribers em n)"
  "subscribers (once eventName l em) n = subscribers em n"
  by (simp_all add: subscribers_def onceSubscribers_def once_def Let_def)

lemma exec_keeps:
  assumes "\<not> concerns n c"
  shows "events (exec c em) n = events em n"
    and "onceEvents (exec c em) n = onceEvents em n"
    and "\<not> detaches n c"
  using assms
  by (cases c; simp add: on_def once_def off_def clear_def clearAll_def Let_def
        split: option.splits)+

lemma runCommands_keep:
  "list_all (\<lambda>c. \<not> concerns n c) cs \<Longrightarrow>
   snd (foldl (runCommand ph n) (em, None) cs) = None
   \<and> events (fst (foldl (runCommand ph n) (em, None) cs)) n = events em n
   \<and> onceEvents (fst (foldl (runCommand ph n) (em, None) cs)) n = onceEvents em n"
proof (induction cs arbitrary: em)
  case Nil
  then show ?case by simp
next
  case (Cons c cs)
  have c: "\<not> concerns n c" and cs: "list_all (\<lambda>c. \<not> concerns n c) cs"
    using Cons.prems by simp_all
  have "runCommand ph n (em, None) c = (exec c em, None)"
    using exec_keeps(3) [OF c] by (simp add: runCommand_def)
  then show ?case
    using Cons.IH [OF cs, of "exec c em"] exec_keeps(1,2) [OF c, of em] by simp
qed

lemma callListener_quiet:
  assumes "list_all (\<lambda>c. \<not> concerns n c) (snd (body l d w))"
  shows "\<exists>em'. callListener msg ph n d l (em, None, w, console) =
           (em', None, final (fst (body l d w)),
            console @ replicate (case fst (body l d w) of Returns w' \<Rightarrow> 0 | Throws e w' \<Rightarrow> 1) msg)
         \<and> events em' n = events em n \<and> onceEvents em' n = onceEvents em n"
proof -
  obtain result commands where b: "body l d w = (result, commands)" by (cases "body l d w")
  obtain em' det where f: "foldl (runCommand ph n) (em, None) commands = (em', det)"
    by (cases "foldl (runCommand ph n) (em, None) commands")
  have k: "det = None" "events em' n = events em n" "onceEvents em' n = onceEvents em n"
    using runCommands_keep [of n commands ph em] assms b f by simp_all
  show ?thesis
    using b f k by (cases result) (simp_all add: callListener_def)
qed

lemma forEachFrom_quiet:
  assumes "listenersOf ph em n = Some arr" and "k \<le> length arr" and "quiet n (drop k arr) d w"
    and "events em n = ev" and "onceEvents em n = oe"
  shows "\<exists>em'. forEachFrom k (length arr) msg ph n d (em, None, w, console) =
           (em', None, callAll (drop k arr) d w, console @ replicate (thrown (drop k arr) d w) msg)
         \<and> events em' n = ev \<and> onceEvents em' n = oe"
  using assms
proof (induction "length arr - k" arbitrary: k em w console)
  case 0
  then have "k = length arr" by simp
  then show ?case using 0 by (simp add: forEachFrom.simps)
next
  case (Suc m)
  have lt: "k < length arr" using Suc.hyps(2) by simp
  have dr: "drop k arr = arr ! k # drop (Suc k) arr"
    using lt by (simp add: Cons_nth_drop_Suc)
  have q1: "list_all (\<lambda>c. \<not> concerns n c) (snd (body (arr ! k) d w))"
    and q2: "quiet n (drop (Suc k) arr) d (final (fst (body (arr ! k) d w)))"
    using Suc.prems(3) dr by simp_all
  have wk: "walked ph n em None = arr"
    using Suc.prems(1) by (simp add: walked_def)
  from callListener_quiet [OF q1, of msg ph em console]
  obtain em1 where c1: "callListener msg ph n d (arr ! k) (em, None, w, console) =
           (em1, None, final (fst (body (arr ! k) d w)),
            console @ replicate (case fst (body (arr ! k) d w) of Returns w' \<Rightarrow> 0 | Throws e w' \<Rightarrow> 1) msg)"
    and e1: "events em1 n = events em n" and o1: "onceEvents em1 n = onceEvents em n"
    by blast
  have l1: "listenersOf ph em1 n = Some arr"
    using Suc.prems(1) e1 o1 by (cases ph) (simp_all add: listenersOf_def)
  have m: "m = length arr - Suc k" using Suc.hyps(2) by simp
  have le: "Suc k \<le> length arr" using lt by simp
  from Suc.hyps(1) [OF m l1 le q2, of "console @ replicate (case fst (body (arr ! k) d w) of Returns w' \<Rightarrow> 0 | Throws e w' \<Rightarrow> 1) msg"]
    e1 o1 Suc.prems(4,5)
  obtain em' where r: "forEachFrom (Suc k) (length arr) msg ph n d
           (em1, None, final (fst (body (arr ! k) d w)),
            console @ replicate (case fst (body (arr ! k) d w) of Returns w' \<Rightarrow> 0 | Throws e w' \<Rightarrow> 1) msg) =
           (em', None, callAll (drop (Suc k) arr) d (final (fst (body (arr ! k) d w))),
            (console @ replicate (case fst (body (arr ! k) d w) of Returns w' \<Rightarrow> 0 | Throws e w' \<Rightarrow> 1) msg)
              @ replicate (thrown (drop (Suc k) arr) d (final (fst (body (arr ! k) d w)))) msg)"
    and e': "events em' n = ev" and o': "onceEvents em' n = oe"
    by auto
  have "forEachFrom k (length arr) msg ph n d (em, None, w, console) =
          (em', None, callAll (drop k arr) d w, console @ replicate (thrown (drop k arr) d w) msg)"
    using lt wk c1 r
    by (subst forEachFrom.simps) (simp add: dr replicate_add [symmetric] del: replicate_add)
  then show ?case using e' o' by blast
qed

text \<open>
  C9 as stated fails, in three ways.  A listener subscribed with \<open>once\<close> before a
  listener subscribed with \<open>on\<close> is called after it: the order is not the order of
  subscription.  When the first of two listeners unsubscribes itself, the second is not
  called at all: \<open>forEach\<close> walks the array that \<open>off\<close> has shortened.  And a listener
  that a once-listener subscribes with \<open>once\<close> during the dispatch is removed without
  having been called.
\<close>

theorem emit_skips_listener_counterexample:
  "fst (snd (emit ''play'' () (on ''play'' (logger 2) (once ''play'' (logger 1) newEventManager))
               ([], []))) = [2, 1] \<and>
   subscribers (on ''play'' (logger 2) (on ''play'' (leaver 1) newEventManager)) ''play''
     = [leaver 1, logger 2] \<and>
   emit ''play'' () (on ''play'' (logger 2) (on ''play'' (leaver 1) newEventManager)) ([], [])
     = (on ''play'' (logger 2) newEventManager, [1], []) \<and>
   emit ''play'' () (once ''play'' (resubscriber 1 2) newEventManager) ([], [])
     = (newEventManager, [1], [])"
  by (simp add: emit_def on_def once_def newEventManager_def forEachFrom.simps walked_def
      listenersOf_def callListener_def leaver_def logger_def resubscriber_def runCommand_def
      off_def subscribers_def)

text \<open>
  C9, amended.  Let the listeners of the event, called in turn, make no call on the event
  manager that subscribes, unsubscribes or clears listeners of that event.  Then \<open>emit\<close>
  calls all of them, first the listeners subscribed with \<open>on\<close> in the order of their
  subscription and then those subscribed with \<open>once\<close> in the order of theirs, each on
  the world the one before left.  A listener that throws does not stop the others: every
  exception ends up as one line on the console, and \<open>emit\<close> returns to its caller all
  the same.  The \<open>on\<close> listeners stay subscribed; the \<open>once\<close> listeners of the event
  are removed.
\<close>

theorem emit_calls_every_listener:
  assumes "quiet eventName (subscribers em eventName @ onceSubscribers em eventName) d w"
  shows "fst (snd (emit eventName d em (w, console))) =
           callAll (subscribers em eventName @ onceSubscribers em eventName) d w
       \<and> snd (snd (emit eventName d em (w, console))) =
           console
           @ replicate (thrown (subscribers em eventName) d w)
               (''Error in event listener for '' @ eventName @ '':'')
           @ replicate (thrown (onceSubscribers em eventName) d
                          (callAll (subscribers em eventName) d w))
               (''Error in once event listener for '' @ eventName @ '':'')
       \<and> subscribers (fst (emit eventName d em (w, console))) eventName
           = subscribers em eventName
       \<and> onceSubscribers (fst (emit eventName d em (w, console))) eventName = []
       \<and> subscribers (on eventName l em) eventName = subscribers em eventName @ [l]
       \<and> onceSubscribers (once eventName l em) eventName = onceSubscribers em eventName @ [l]"
proof -
  let ?m1 = "''Error in event listener for '' @ eventName @ '':''"
  let ?m2 = "''Error in once event listener for '' @ eventName @ '':''"
  let ?regs = "subscribers em eventName"
  let ?onces = "onceSubscribers em eventName"
  have q1: "quiet eventName ?regs d w" and q2: "quiet eventName ?onces d (callAll ?regs d w)"
    using assms by (simp_all add: quiet_append)
  have "\<exists>em1. (case events em eventName of
               None \<Rightarrow> (em, None, w, console)
             | Some listeners \<Rightarrow>
                 forEachFrom 0 (length listeners) ?m1 Regular eventName d (em, None, w, console))
          = (em1, None, callAll ?regs d w, console @ replicate (thrown ?regs d w) ?m1)
        \<and> events em1 eventName = events em eventName
        \<and> onceEvents em1 eventName = onceEvents em eventName"
  proof (cases "events em eventName")
    case None
    then show ?thesis by (simp add: subscribers_def)
  next
    case (Some regs)
    have l: "listenersOf Regular em eventName = Some regs"
      using Some by (simp add: listenersOf_def)
    have q: "quiet eventName (drop 0 regs) d w"
      using q1 Some by (simp add: subscribers_def)
    show ?thesis
      using forEachFrom_quiet [OF l _ q refl refl, of ?m1 console] Some
      by (simp add: subscribers_def)
  qed
  then obtain em1 where
    r1: "(case events em eventName of
               None \<Rightarrow> (em, None, w, console)
             | Some listeners \<Rightarrow>
                 forEachFrom 0 (length listeners) ?m1 Regular eventName d (em, None, w, console))
          = (em1, None, callAll ?regs d w, console @ replicate (thrown ?regs d w) ?m1)"
    and e1: "events em1 eventName = events em eventName"
    and o1: "onceEvents em1 eventName = onceEvents em eventName"
    by blast
  have main: "fst (snd (emit eventName d em (w, console))) = callAll (?regs @ ?onces) d w
       \<and> snd (snd (emit eventName d em (w, console))) =
           console @ replicate (thrown ?regs d w) ?m1
             @ replicate (thrown ?onces d (callAll ?regs d w)) ?m2
       \<and> events (fst (emit eventName d em (w, console))) eventName = events em eventName
       \<and> onceEvents (fst (emit eventName d em (w, console))) eventName = None"
  proof (cases "onceEvents em eventName")
    case None
    then show ?thesis
      using r1 e1 o1 by (simp add: emit_def onceSubscribers_def callAll_append)
  next
    case (Some onces)
    have l: "listenersOf OnceOnly em1 eventName = Some onces"
      using Some o1 by (simp add: listenersOf_def)
    have q: "quiet eventName (drop 0 onces) d (callAll ?regs d w)"
      using q2 Some by (simp add: onceSubscribers_def)
    from forEachFrom_quiet [OF l _ q refl refl, of ?m2 "console @ replicate (thrown ?regs d w) ?m1"]
    obtain em2 where
      r2: "forEachFrom 0 (length onces) ?m2 OnceOnly eventName d
             (em1, None, callAll ?regs d w, console @ replicate (thrown ?regs d w) ?m1)
           = (em2, None, callAll onces d (callAll ?regs d w),
              (console @ replicate (thrown ?regs d w) ?m1)
                @ replicate (thrown onces d (callAll ?regs d w)) ?m2)"
      and e2: "events em2 eventName = events em1 eventName"
      by auto
    show ?thesis
      using r1 r2 e1 e2 o1 Some
      by (simp add: emit_def onceSubscribers_def callAll_append)
  qed
  have s1: "subscribers (fst (emit eventName d em (w, console))) eventName = ?regs"
    using main by (simp add: subscribers_def)
  have s2: "onceSubscribers (fst (emit eventName d em (w, console))) eventName = []"
    using main by (simp add: onceSubscribers_def)
  have s3: "subscribers (on eventName l em) eventName = ?regs @ [l]"
    "onceSubscribers (once eventName l em) eventName = ?onces @ [l]"
    by (simp_all add: subscribers_on subscribers_once)
  from main have w1: "fst (snd (emit eventName d em (w, console))) = callAll (?regs @ ?onces) d w"
    and c1: "snd (snd (emit eventName d em (w, console))) =
           console @ replicate (thrown ?regs d w) ?m1
             @ replicate (thrown ?onces d (callAll ?regs d w)) ?m2"
    by blast+
  show ?thesis
    by (intro conjI) (rule w1 c1 s1 s2 s3)+
qed

theorem emit_calls_every_listener_witness:
  "quiet ''play''
     (subscribers (once ''play'' (logger 4) (on ''play'' (recruiter 3 9) (on ''play'' (thrower 2)
        (once ''play'' (logger 1) newEventManager)))) ''play''
      @ onceSubscribers (once ''play'' (logger 4) (on ''play'' (recruiter 3 9) (on ''play'' (thrower 2)
        (once ''play'' (logger 1) newEventManager)))) ''play'') () [] \<and>
   fst (snd (emit ''play'' ()
     (once ''play'' (logger 4) (on ''play'' (recruiter 3 9) (on ''play'' (thrower 2)
        (once ''play'' (logger 1) newEventManager))))
     ([], []))) = [2, 3, 1, 4] \<and>
   snd (snd (emit ''play'' ()
     (once ''play'' (logger 4) (on ''play'' (recruiter 3 9) (on ''play'' (thrower 2)
        (once ''play'' (logger 1) newEventManager))))
     ([], []))) = [''Error in event listener for play:''] \<and>
   subscribers (fst (emit ''play'' ()
     (once ''play'' (logger 4) (on ''play'' (recruiter 3 9) (on ''play'' (thrower 2)
        (once ''play'' (logger 1) newEventManager))))
     ([], []))) ''play'' = [thrower 2, recruiter 3 9] \<and>
   onceSubscribers (fst (emit ''play'' ()
     (once ''play'' (logger 4) (on ''play'' (recruiter 3 9) (on ''play'' (thrower 2)
        (once ''play'' (logger 1) newEventManager))))
     ([], []))) ''play'' = []"
proof -
  let ?em = "once ''play'' (logger 4) (on ''play'' (recruiter 3 9) (on ''play'' (thrower 2)
               (once ''play'' (logger 1) newEventManager)))"
  have s: "subscribers ?em ''play'' = [thrower 2, recruiter 3 9]"
    "onceSubscribers ?em ''play'' = [logger 1, logger 4]"
    by (simp_all add: subscribers_on subscribers_once)
       (simp_all add: subscribers_def onceSubscribers_def newEventManager_def)
  have q: "quiet ''play'' (subscribers ?em ''play'' @ onceSubscribers ?em ''play'') () []"
    unfolding s by (simp add: logger_def thrower_def recruiter_def)
  have c: "callAll ([thrower 2, recruiter 3 9] @ [logger 1, logger 4]) () [] = [2, 3, 1, 4]"
    "callAll [thrower 2, recruiter 3 9] () [] = [2, 3]"
    "thrown [thrower 2, recruiter 3 9] () [] = 1"
    "thrown [logger 1, logger 4] () [2, 3] = 0"
    by (simp_all add: logger_def thrower_def recruiter_def)
  show ?thesis
    using q emit_calls_every_listener [OF q, of "[]" "logger 5"]
    unfolding s c by simp
qed

section \<open>AnalyticsManager: the flush loop\<close>

lemma flushCycle_rejected:
  assumes "trackerConfig am = Some cfg" and "trackingUrl cfg \<noteq> []"
    and "trackingQueue am \<noteq> []"
  shows "flushCycle (Rejected, duringFetch, duringSleep) am =
           Inr (am\<lparr>trackingQueue := trackingQueue am @ duringFetch @ duringSleep\<rparr>)"
proof -
  have "take 10 (trackingQueue am) @ drop 10 (trackingQueue am) @ duringFetch @ duringSleep
          = trackingQueue am @ duringFetch @ duringSleep"
    by (metis append_assoc append_take_drop_id)
  then show ?thesis
    using assms by (simp add: flushCycle_def sendEvents_def)
qed

lemma processTrackingQueue_rejected:
  assumes "trackerConfig am = Some cfg" and "trackingUrl cfg \<noteq> []"
    and "trackingQueue am \<noteq> []" and "isTracking am"
  shows "processTrackingQueue (rejectedCycles arrivals) am =
           Inr (am\<lparr>trackingQueue := trackingQueue am @ allArrivals arrivals\<rparr>)"
  using assms
proof (induction arrivals arbitrary: am)
  case Nil
  then show ?case by (simp add: rejectedCycles_def allArrivals_def)
next
  case (Cons c arrivals)
  obtain a b where c: "c = (a, b)" by (cases c)
  let ?am1 = "am\<lparr>trackingQueue := trackingQueue am @ a @ b\<rparr>"
  have f: "flushCycle (Rejected, a, b) am = Inr ?am1"
    using flushCycle_rejected [OF Cons.prems(1,2,3)] .
  have ih: "processTrackingQueue (rejectedCycles arrivals) ?am1 =
              Inr (?am1\<lparr>trackingQueue := trackingQueue ?am1 @ allArrivals arrivals\<rparr>)"
    using Cons.IH [of ?am1] Cons.prems by simp
  show ?case
    using Cons.prems(4) f ih
    by (simp add: c rejectedCycles_def allArrivals_def)
qed

lemma flushCycle_responded:
  assumes "trackerConfig am = Some cfg" and "trackingUrl cfg \<noteq> []"
    and "trackingQueue am \<noteq> []"
  shows "flushCycle (Responded status, duringFetch, duringSleep) am =
           Inr (am\<lparr>trackingQueue := drop 10 (trackingQueue am) @ duringFetch @ duringSleep\<rparr>)"
  using assms by (simp add: flushCycle_def sendEvents_def)

text \<open>
  C6 as stated fails: a batch that the endpoint answers with status 500 is a failed send,
  and it is not put back; its event is in no later batch.
\<close>

theorem failed_response_dropped_counterexample:
  "trackingQueue exampleAnalytics = [exampleEvent] \<and>
   flushCycle (Responded 500, [], []) exampleAnalytics =
     Inr (exampleAnalytics\<lparr>trackingQueue := []\<rparr>) \<and>
   processTrackingQueue [(Responded 500, [], []), (Responded 200, [], [])] exampleAnalytics =
     Inr (exampleAnalytics\<lparr>trackingQueue := []\<rparr>)"
  by (simp add: exampleAnalytics_def exampleTracking_def flushCycle_def sendEvents_def)

text \<open>
  C6, amended.  In every turn of the flush loop whose request is rejected (\<open>fetch\<close>
  throws), the batch is put back at the front of the queue, before the events queued in
  the meantime, so no event is lost and the next batch starts with the failed one; this
  repeats for any number of turns, with no limit and no error leaving the loop.  A batch
  that the endpoint answers, with whatever status, is not put back.
\<close>

theorem rejected_batch_requeued:
  assumes "trackerConfig am = Some cfg" and "trackingUrl cfg \<noteq> []"
    and "trackingQueue am \<noteq> []" and "isTracking am"
  shows "flushCycle (Rejected, duringFetch, duringSleep) am =
           Inr (am\<lparr>trackingQueue := trackingQueue am @ duringFetch @ duringSleep\<rparr>)
       \<and> prefix (take 10 (trackingQueue am))
            (take 10 (trackingQueue am @ duringFetch @ duringSleep))
       \<and> processTrackingQueue (rejectedCycles arrivals) am =
           Inr (am\<lparr>trackingQueue := trackingQueue am @ allArrivals arrivals\<rparr>)
       \<and> flushCycle (Responded status, duringFetch, duringSleep) am =
           Inr (am\<lparr>trackingQueue := drop 10 (trackingQueue am) @ duringFetch @ duringSleep\<rparr>)"
proof (intro conjI)
  show "flushCycle (Rejected, duringFetch, duringSleep) am =
           Inr (am\<lparr>trackingQueue := trackingQueue am @ duringFetch @ duringSleep\<rparr>)"
    using flushCycle_rejected [OF assms(1,2,3)] .
  show "prefix (take 10 (trackingQueue am))
            (take 10 (trackingQueue am @ duringFetch @ duringSleep))"
    by (simp add: prefix_def)
  show "processTrackingQueue (rejectedCycles arrivals) am =
           Inr (am\<lparr>trackingQueue := trackingQueue am @ allArrivals arrivals\<rparr>)"
    using processTrackingQueue_rejected [OF assms] .
  show "flushCycle (Responded status, duringFetch, duringSleep) am =
           Inr (am\<lparr>trackingQueue := drop 10 (trackingQueue am) @ duringFetch @ duringSleep\<rparr>)"
    using flushCycle_responded [OF assms(1,2,3)] .
qed

theorem rejected_batch_requeued_witness:
  "trackerConfig exampleAnalytics = Some exampleTracking \<and>
   trackingUrl exampleTracking \<noteq> [] \<and>
   trackingQueue exampleAnalytics \<noteq> [] \<and> isTracking exampleAnalytics \<and>
   flushCycle (Rejected, [], [exampleEvent\<lparr>eventType := ''pause''\<rparr>]) exampleAnalytics =
     Inr (exampleAnalytics\<lparr>trackingQueue :=
            [exampleEvent, exampleEvent\<lparr>eventType := ''pause''\<rparr>]\<rparr>) \<and>
   processTrackingQueue (rejectedCycles [([], []), ([], []), ([], [])]) exampleAnalytics =
     Inr exampleAnalytics"
proof -
  have h: "trackerConfig exampleAnalytics = Some exampleTracking" "trackingUrl exampleTracking \<noteq> []"
    "trackingQueue exampleAnalytics \<noteq> []" "isTracking exampleAnalytics"
    by (simp_all add: exampleAnalytics_def exampleTracking_def)
  show ?thesis
    using h rejected_batch_requeued [OF h, of "[]" "[exampleEvent\<lparr>eventType := ''pause''\<rparr>]"
              "[([], []), ([], []), ([], [])]"]
    by (simp add: allArrivals_def exampleAnalytics_def)
qed

section \<open>AnalyticsManager: the viewed threshold\<close>







end
